theory Spec2Isabelle
  imports Complex_Main "HOL-Library.Log_Nat"
begin

section \<open>Data model\<close>

text \<open>
  The two tables of the ledger store, as the controllers read and write them.
  Identities are the opaque keys the store hands out. Amounts and balances are JavaScript
  numbers, that is IEEE-754 doubles: the finite ones are rationals and are kept as such,
  and the arithmetic on them rounds (section Numbers). The store is taken to keep a number
  as it is sent (the schema declares these columns \<open>DECIMAL(15,2)\<close>; what the store
  does to further digits is not followed). A column that an insert does not mention is
  \<open>None\<close>.
\<close>

record profile =
  pid :: nat
  name :: string
  email :: string
  password_hash :: string
  account_number :: string
  balance :: rat
  is_active :: bool

record transaction =
  tid :: nat
  user_id :: nat
  type :: string
  amount :: rat
  description :: "string option"
  to_account_number :: "string option"
  transaction_type :: "string option"
  reference :: "string option"
  status :: string

text \<open>
  The JSON body of a money-movement request (\<open>req.body\<close>), its \<open>amount\<close> a JSON
  number.
\<close>

record body =
  b_type :: string
  b_amount :: rat
  b_description :: "string option"
  b_to_account_number :: "string option"
  b_transaction_type :: "string option"

text \<open>What a handler sends back: an error body with its HTTP status, or a success body.\<close>

datatype response =
    ErrorResponse nat string string
  | TransactionSuccess transaction rat
  | TransferSuccess transaction rat
  | SignupSuccess profile
  | ActivateSuccess profile
  | AdminSuccess
  | AdminError nat string

section \<open>The ledger store\<close>

text \<open>
  The store is the external collaborator behind \<open>supabase.from(...)\<close>. Every call
  resolves to \<open>{data, error}\<close>; which calls come back with an error is not decided by
  the program, so the state carries the answers of the upcoming calls (\<open>answers\<close>,
  consumed one per call; an exhausted list means the store works). A failed call has no
  effect on the tables. \<open>calls\<close> is the journal of the calls issued so far, in the order
  of the \<open>await\<close>s, each with what it was issued for: a step of the operation, or
  one of the calls the source marks as a rollback.
\<close>

datatype outcome = Ok | Failed string

datatype purpose = Step | Rollback

datatype request =
    SelectProfileById nat
  | SelectProfileByAccountNumber string
  | SelectProfileByEmail string
  | InsertProfile string
  | InsertTransaction nat string
  | DeleteTransaction nat
  | UpdateBalance nat rat
  | UpdateIsActive nat bool
  | UpdateActivation nat

type_synonym call = "purpose \<times> request \<times> outcome"

record store =
  profiles :: "profile list"
  transactions :: "transaction list"
  next_id :: nat
  answers :: "outcome list"
  calls :: "call list"

definition answer :: "store \<Rightarrow> outcome" where
  "answer s = (case answers s of [] \<Rightarrow> Ok | a # _ \<Rightarrow> a)"

definition consume :: "purpose \<Rightarrow> request \<Rightarrow> outcome \<Rightarrow> store \<Rightarrow> store" where
  "consume pu rq out s = s\<lparr>answers := tl (answers s), calls := calls s @ [(pu, rq, out)]\<rparr>"

text \<open>\<open>.single()\<close>: exactly one row, or an error.\<close>

definition single :: "'a list \<Rightarrow> string + 'a" where
  "single rows = (case rows of [r] \<Rightarrow> Inr r
                  | _ \<Rightarrow> Inl ''JSON object requested, multiple (or no) rows returned'')"

definition select_single ::
  "request \<Rightarrow> (profile \<Rightarrow> bool) \<Rightarrow> store \<Rightarrow> (string + profile) \<times> store" where
  "select_single rq cond s =
     (case answer s of
        Failed m \<Rightarrow> (Inl m, consume Step rq (Failed m) s)
      | Ok \<Rightarrow>
          (case single (filter cond (profiles s)) of
             Inl m \<Rightarrow> (Inl m, consume Step rq (Failed m) s)
           | Inr p \<Rightarrow> (Inr p, consume Step rq Ok s)))"

text \<open>\<open>.from('profiles').select(...).eq('id', i).single()\<close>\<close>

definition select_profile_by_id :: "nat \<Rightarrow> store \<Rightarrow> (string + profile) \<times> store" where
  "select_profile_by_id i s = select_single (SelectProfileById i) (\<lambda>p. pid p = i) s"

text \<open>\<open>.from('profiles').select(...).eq('account_number', n).single()\<close>\<close>

definition select_profile_by_account_number ::
  "string \<Rightarrow> store \<Rightarrow> (string + profile) \<times> store" where
  "select_profile_by_account_number n s =
     select_single (SelectProfileByAccountNumber n) (\<lambda>p. account_number p = n) s"

text \<open>\<open>.from('profiles').select('id').eq('email', e).single()\<close>\<close>

definition select_profile_by_email :: "string \<Rightarrow> store \<Rightarrow> (string + profile) \<times> store" where
  "select_profile_by_email e s =
     select_single (SelectProfileByEmail e) (\<lambda>p. email p = e) s"

text \<open>
  \<open>.from('transactions').insert([row]).select().single()\<close>: the store gives the row
  its identity and returns it.
\<close>

definition insert_transaction ::
  "transaction \<Rightarrow> store \<Rightarrow> (string + transaction) \<times> store" where
  "insert_transaction row s =
     (case answer s of
        Failed m \<Rightarrow> (Inl m, consume Step (InsertTransaction (user_id row) (type row)) (Failed m) s)
      | Ok \<Rightarrow>
          (let t = row\<lparr>tid := next_id s\<rparr>
           in (Inr t, consume Step (InsertTransaction (user_id row) (type row)) Ok
                 (s\<lparr>transactions := transactions s @ [t], next_id := Suc (next_id s)\<rparr>))))"

text \<open>\<open>.from('transactions').delete().eq('id', i)\<close>\<close>

definition delete_transaction :: "purpose \<Rightarrow> nat \<Rightarrow> store \<Rightarrow> outcome \<times> store" where
  "delete_transaction pu i s =
     (case answer s of
        Failed m \<Rightarrow> (Failed m, consume pu (DeleteTransaction i) (Failed m) s)
      | Ok \<Rightarrow> (Ok, consume pu (DeleteTransaction i) Ok
                 (s\<lparr>transactions := filter (\<lambda>t. tid t \<noteq> i) (transactions s)\<rparr>)))"

text \<open>\<open>.from('profiles').update({ balance: b }).eq('id', i)\<close>\<close>

definition update_balance :: "purpose \<Rightarrow> nat \<Rightarrow> rat \<Rightarrow> store \<Rightarrow> outcome \<times> store" where
  "update_balance pu i b s =
     (case answer s of
        Failed m \<Rightarrow> (Failed m, consume pu (UpdateBalance i b) (Failed m) s)
      | Ok \<Rightarrow> (Ok, consume pu (UpdateBalance i b) Ok
                 (s\<lparr>profiles := map (\<lambda>p. if pid p = i then p\<lparr>balance := b\<rparr> else p) (profiles s)\<rparr>)))"

text \<open>
  \<open>.from('profiles').insert([row]).select().single()\<close>: the store gives the row its
  identity and returns it.
\<close>

definition insert_profile :: "profile \<Rightarrow> store \<Rightarrow> (string + profile) \<times> store" where
  "insert_profile row s =
     (case answer s of
        Failed m \<Rightarrow> (Inl m, consume Step (InsertProfile (email row)) (Failed m) s)
      | Ok \<Rightarrow>
          (let p = row\<lparr>pid := next_id s\<rparr>
           in (Inr p, consume Step (InsertProfile (email row)) Ok
                 (s\<lparr>profiles := profiles s @ [p], next_id := Suc (next_id s)\<rparr>))))"

text \<open>
  \<open>.from('profiles').update(changes).eq('id', i).select().single()\<close>: the rows with
  that identity are changed and the changed row is returned; an error when it is not
  exactly one row.
\<close>

definition update_profile_single ::
  "request \<Rightarrow> nat \<Rightarrow> (profile \<Rightarrow> profile) \<Rightarrow> store \<Rightarrow> (string + profile) \<times> store" where
  "update_profile_single rq i change s =
     (case answer s of
        Failed m \<Rightarrow> (Inl m, consume Step rq (Failed m) s)
      | Ok \<Rightarrow>
          (case single (filter (\<lambda>p. pid p = i) (profiles s)) of
             Inl m \<Rightarrow> (Inl m, consume Step rq (Failed m) s)
           | Inr p \<Rightarrow>
               (Inr (change p), consume Step rq Ok
                  (s\<lparr>profiles := map (\<lambda>p. if pid p = i then change p else p) (profiles s)\<rparr>))))"

section \<open>Numbers\<close>

text \<open>
  A finite double is a rational \<open>m * 2 ^ e\<close> with \<open>\<bar>m\<bar> < 2 ^ 53\<close> and
  \<open>- 1074 \<le> e\<close>. \<open>round_double x\<close> is the double nearest to \<open>x\<close>, a tie going to
  the even significand: with \<open>2 ^ k \<le> \<bar>x\<bar> < 2 ^ (k + 1)\<close> the doubles around \<open>x\<close>
  are \<open>2 ^ (k - 52)\<close> apart, and \<open>2 ^ (- 1074)\<close> apart below \<open>2 ^ (- 1022)\<close>.
\<close>

definition pow2 :: "int \<Rightarrow> rat" where
  "pow2 k = (if 0 \<le> k then 2 ^ nat k else 1 / 2 ^ nat (- k))"

text \<open>The \<open>k\<close> with \<open>2 ^ k \<le> x < 2 ^ (k + 1)\<close>, for a positive \<open>x\<close>.\<close>

definition ilog2 :: "rat \<Rightarrow> int" where
  "ilog2 x = (if 1 \<le> x then bitlen \<lfloor>x\<rfloor> - 1 else - bitlen (\<lceil>1 / x\<rceil> - 1))"

definition round_half_even :: "rat \<Rightarrow> int" where
  "round_half_even x =
     (let f = \<lfloor>x\<rfloor>; r = x - of_int f
      in if r < 1 / 2 then f else if 1 / 2 < r then f + 1 else if even f then f else f + 1)"

definition round_double :: "rat \<Rightarrow> rat" where
  "round_double x =
     (if x = 0 then 0
      else (let q = pow2 (max (ilog2 \<bar>x\<bar>) (- 1022) - 52)
            in sgn x * of_int (round_half_even (\<bar>x\<bar> / q)) * q))"

text \<open>
  \<open>x + y\<close> and \<open>x - y\<close> on two numbers: the exact result, rounded. JavaScript gives
  \<open>Infinity\<close> when the rounded result reaches \<open>2 ^ 1024\<close>; such results are marked by
  \<open>overflows\<close> and are not followed further. Comparisons of numbers (\<open><\<close>, \<open><=\<close>) are
  those of their values.
\<close>

definition number_add :: "rat \<Rightarrow> rat \<Rightarrow> rat" where
  "number_add x y = round_double (x + y)"

definition number_subtract :: "rat \<Rightarrow> rat \<Rightarrow> rat" where
  "number_subtract x y = round_double (x - y)"

definition overflows :: "rat \<Rightarrow> bool" where
  "overflows x = (round_double x \<noteq> 0 \<and> 1024 \<le> ilog2 \<bar>round_double x\<bar>)"

text \<open>The numbers that are doubles themselves: computing them does not round.\<close>

definition exact :: "rat \<Rightarrow> bool" where
  "exact x = (round_double x = x \<and> \<not> overflows x)"

section \<open>utils/helpers.mjs\<close>

text \<open>\<open>calculateNewBalance(currentBalance, amount, type)\<close>.\<close>

definition calculateNewBalance :: "rat \<Rightarrow> rat \<Rightarrow> string \<Rightarrow> rat" where
  "calculateNewBalance currentBalance amnt typ =
     (if typ = ''credit'' then number_add currentBalance amnt
      else if typ = ''debit'' then number_subtract currentBalance amnt
      else currentBalance)"

text \<open>
  Strings. \<open>v || d\<close> on an optional string takes \<open>d\<close> when \<open>v\<close> is undefined or
  empty; a template literal prints an undefined value as \<open>undefined\<close>.
\<close>

definition or_default :: "string option \<Rightarrow> string \<Rightarrow> string" where
  "or_default v d = (case v of None \<Rightarrow> d | Some x \<Rightarrow> if x = [] then d else x)"

definition template :: "string option \<Rightarrow> string" where
  "template v = (case v of None \<Rightarrow> ''undefined'' | Some x \<Rightarrow> x)"

definition truthy :: "string option \<Rightarrow> bool" where
  "truthy v = (case v of None \<Rightarrow> False | Some x \<Rightarrow> x \<noteq> [])"

definition toUpperCase_char :: "char \<Rightarrow> char" where
  "toUpperCase_char c =
     (case map_of (zip ''abcdefghijklmnopqrstuvwxyz'' ''ABCDEFGHIJKLMNOPQRSTUVWXYZ'') c of
        Some u \<Rightarrow> u
      | None \<Rightarrow> c)"

definition toUpperCase :: "string \<Rightarrow> string" where
  "toUpperCase xs = map toUpperCase_char xs"

definition substring :: "nat \<Rightarrow> nat \<Rightarrow> string \<Rightarrow> string" where
  "substring a b xs = take (b - a) (drop a xs)"

text \<open>\<open>slice(a, b)\<close> with two indices that are not negative.\<close>

definition slice :: "nat \<Rightarrow> nat \<Rightarrow> string \<Rightarrow> string" where
  "slice a b xs = take (b - a) (drop a xs)"

text \<open>
  \<open>Number.prototype.toString(radix)\<close> on a non-negative integer, and on a number of
  \<open>[0, 1)\<close> given by its fractional digits in that radix (what \<open>Math.random()\<close>
  returns).
\<close>

definition digit :: "nat \<Rightarrow> char" where
  "digit d = (if d < 36 then ''0123456789abcdefghijklmnopqrstuvwxyz'' ! d else CHR ''?'')"

function toString_radix :: "nat \<Rightarrow> nat \<Rightarrow> string" where
  "toString_radix r n =
     (if n < r \<or> r < 2 then [digit n] else toString_radix r (n div r) @ [digit (n mod r)])"
  by pat_completeness auto
termination
  by (relation "measure (\<lambda>(r, n). n)") auto

declare toString_radix.simps [simp del]

definition fraction_toString :: "nat list \<Rightarrow> string" where
  "fraction_toString ds = (if ds = [] then ''0'' else ''0.'' @ map digit ds)"

text \<open>
  The clock and the random source of one request: \<open>Date.now()\<close> in milliseconds and
  the base-36 fractional digits of \<open>Math.random()\<close>.
\<close>

record env =
  now :: nat
  random :: "nat list"

text \<open>\<open>generateReference(type)\<close>\<close>

definition generateReference :: "string \<Rightarrow> env \<Rightarrow> string" where
  "generateReference typ e =
     (let prefix = substring 0 3 (toUpperCase typ);
          timestamp = toString_radix 36 (now e);
          rnd = substring 2 8 (fraction_toString (random e))
      in toUpperCase (prefix @ ''-'' @ timestamp @ ''-'' @ rnd))"


section \<open>middleware/auth.mjs\<close>

text \<open>
  \<open>authenticateToken\<close>, after the token has been verified and decoded to \<open>userId\<close>:
  the profile is read from the store and becomes \<open>req.user\<close>.
\<close>

definition authenticateToken :: "nat \<Rightarrow> store \<Rightarrow> (response + profile) \<times> store" where
  "authenticateToken userId s =
     (case select_profile_by_id userId s of
        (Inl _, s1) \<Rightarrow> (Inl (ErrorResponse 403 ''Invalid or expired token'' ''INVALID_TOKEN''), s1)
      | (Inr user, s1) \<Rightarrow> (Inr user, s1))"

text \<open>\<open>requireActiveAccount\<close>: \<open>None\<close> is \<open>next()\<close>.\<close>

definition requireActiveAccount :: "profile \<Rightarrow> response option" where
  "requireActiveAccount user =
     (if \<not> is_active user
      then Some (ErrorResponse 403 ''Account is not active. Please wait for activation.''
                   ''ACCOUNT_INACTIVE'')
      else None)"

section \<open>controllers/transactionController.mjs\<close>

definition validTransactionTypes :: "string list" where
  "validTransactionTypes = [''transfer'', ''withdrawal'', ''deposit'', ''payment'', ''refund'']"

text \<open>\<open>createTransaction(req, res)\<close> with \<open>req.user = user\<close> and \<open>req.body = b\<close>.\<close>

definition createTransaction :: "profile \<Rightarrow> body \<Rightarrow> env \<Rightarrow> store \<Rightarrow> response \<times> store" where
  "createTransaction user b e s =
     (let typ = b_type b;
          amnt = b_amount b;
          transaction_typ = (case b_transaction_type b of None \<Rightarrow> ''transfer'' | Some c \<Rightarrow> c)
      in
      if \<not> is_active user then
        (ErrorResponse 403
           ''Account is not active. Please wait for activation to perform transactions.''
           ''ACCOUNT_INACTIVE'', s)
      else if typ \<notin> set [''credit'', ''debit''] then
        (ErrorResponse 400 ''Invalid transaction type'' ''INVALID_TRANSACTION_TYPE'', s)
      else if amnt \<le> 0 then
        (ErrorResponse 400 ''Amount must be positive'' ''INVALID_AMOUNT'', s)
      else if transaction_typ \<notin> set validTransactionTypes then
        (ErrorResponse 400 ''Invalid transaction type'' ''INVALID_TRANSACTION_CATEGORY'', s)
      else
        (case select_profile_by_id (pid user) s of
           (Inl _, s1) \<Rightarrow>
             (ErrorResponse 400 ''Failed to fetch account balance'' ''ACCOUNT_NOT_FOUND'', s1)
         | (Inr prof, s1) \<Rightarrow>
             if typ = ''debit'' \<and> balance prof < amnt then
               (ErrorResponse 400 ''Insufficient funds'' ''INSUFFICIENT_FUNDS'', s1)
             else
               (let ref = generateReference transaction_typ e in
                case insert_transaction
                       \<lparr>tid = 0, user_id = pid user, type = typ, amount = amnt,
                        description = b_description b,
                        to_account_number = b_to_account_number b,
                        transaction_type = Some transaction_typ,
                        reference = Some ref, status = ''completed''\<rparr> s1 of
                  (Inl m, s2) \<Rightarrow> (ErrorResponse 400 m ''TRANSACTION_FAILED'', s2)
                | (Inr txn, s2) \<Rightarrow>
                    (let newBalance = calculateNewBalance (balance prof) amnt typ in
                     case update_balance Step (pid user) newBalance s2 of
                       (Failed _, s3) \<Rightarrow>
                         (case delete_transaction Rollback (tid txn) s3 of
                            (_, s4) \<Rightarrow>
                              (ErrorResponse 400 ''Transaction failed'' ''TRANSACTION_FAILED'', s4))
                     | (Ok, s3) \<Rightarrow> (TransactionSuccess txn newBalance, s3)))))"

text \<open>
  \<open>createWithdrawal\<close>, \<open>createTransfer\<close>, \<open>createDeposit\<close>: each rewrites the body and
  hands over to \<open>createTransaction\<close>.
\<close>

definition createWithdrawal :: "profile \<Rightarrow> body \<Rightarrow> env \<Rightarrow> store \<Rightarrow> response \<times> store" where
  "createWithdrawal user b e s =
     createTransaction user
       (b\<lparr>b_type := ''debit'', b_transaction_type := Some ''withdrawal'',
          b_description :=
            Some (or_default (b_description b)
                    (''Withdrawal'' @ (if truthy (b_to_account_number b)
                                       then '' to '' @ template (b_to_account_number b)
                                       else [])))\<rparr>) e s"

definition createTransfer :: "profile \<Rightarrow> body \<Rightarrow> env \<Rightarrow> store \<Rightarrow> response \<times> store" where
  "createTransfer user b e s =
     (if \<not> truthy (b_to_account_number b) then
        (ErrorResponse 400 ''Recipient account number is required for transfers''
           ''MISSING_RECIPIENT'', s)
      else
        createTransaction user
          (b\<lparr>b_type := ''debit'', b_transaction_type := Some ''transfer'',
             b_description :=
               Some (or_default (b_description b)
                       (''Transfer to '' @ template (b_to_account_number b)))\<rparr>) e s)"

definition createDeposit :: "profile \<Rightarrow> body \<Rightarrow> env \<Rightarrow> store \<Rightarrow> response \<times> store" where
  "createDeposit user b e s =
     createTransaction user
       (b\<lparr>b_type := ''credit'', b_transaction_type := Some ''deposit'',
          b_description := Some (or_default (b_description b) ''Deposit'')\<rparr>) e s"

section \<open>controllers/accountController.mjs\<close>

text \<open>\<open>transfer(req, res)\<close> with \<open>req.user = user\<close> and \<open>req.body = b\<close>.\<close>

definition transfer :: "profile \<Rightarrow> body \<Rightarrow> store \<Rightarrow> response \<times> store" where
  "transfer user b s =
     (if \<not> is_active user then
        (ErrorResponse 403
           ''Account is not active. Please wait for activation to perform transfers.''
           ''ACCOUNT_INACTIVE'', s)
      else
        (let to_account = b_to_account_number b;
             amnt = b_amount b;
             descr = b_description b
         in
         if amnt \<le> 0 then
           (ErrorResponse 400 ''Amount must be positive'' ''INVALID_AMOUNT'', s)
         else
           (case select_profile_by_account_number (template to_account) s of
              (Inl _, s1) \<Rightarrow>
                (ErrorResponse 400 ''Recipient account not found'' ''ACCOUNT_NOT_FOUND'', s1)
            | (Inr recipient, s1) \<Rightarrow>
                if \<not> is_active recipient then
                  (ErrorResponse 400 ''Recipient account is not active'' ''RECIPIENT_INACTIVE'', s1)
                else if pid recipient = pid user then
                  (ErrorResponse 400 ''Cannot transfer to your own account'' ''SELF_TRANSFER'', s1)
                else
                  (case select_profile_by_id (pid user) s1 of
                     (Inl _, s2) \<Rightarrow>
                       (ErrorResponse 400 ''Failed to fetch sender account'' ''ACCOUNT_NOT_FOUND'', s2)
                   | (Inr senderProfile, s2) \<Rightarrow>
                       if balance senderProfile < amnt then
                         (ErrorResponse 400 ''Insufficient funds'' ''INSUFFICIENT_FUNDS'', s2)
                       else
                         (case insert_transaction
                                 \<lparr>tid = 0, user_id = pid user, type = ''debit'', amount = amnt,
                                  description =
                                    Some (or_default descr (''Transfer to '' @ template to_account)),
                                  to_account_number = to_account,
                                  transaction_type = None, reference = None,
                                  status = ''completed''\<rparr> s2 of
                            (Inl _, s3) \<Rightarrow>
                              (ErrorResponse 400 ''Failed to create debit transaction''
                                 ''TRANSACTION_FAILED'', s3)
                          | (Inr debitTransaction, s3) \<Rightarrow>
                              (case insert_transaction
                                      \<lparr>tid = 0, user_id = pid recipient, type = ''credit'',
                                       amount = amnt,
                                       description =
                                         Some (or_default descr
                                                 (''Transfer from '' @ account_number senderProfile)),
                                       to_account_number = Some (account_number senderProfile),
                                       transaction_type = None, reference = None,
                                       status = ''completed''\<rparr> s3 of
                                 (Inl _, s4) \<Rightarrow>
                                   (case delete_transaction Rollback (tid debitTransaction) s4 of
                                      (_, s5) \<Rightarrow>
                                        (ErrorResponse 400 ''Failed to create credit transaction''
                                           ''TRANSACTION_FAILED'', s5))
                               | (Inr creditTransaction, s4) \<Rightarrow>
                                   (case update_balance Step (pid user)
                                           (number_subtract (balance senderProfile) amnt) s4 of
                                      (Failed _, s5) \<Rightarrow>
                                        (case delete_transaction Rollback (tid debitTransaction) s5 of
                                           (_, s6) \<Rightarrow>
                                        (case delete_transaction Rollback (tid creditTransaction) s6 of
                                           (_, s7) \<Rightarrow>
                                             (ErrorResponse 400 ''Failed to update sender balance''
                                                ''TRANSACTION_FAILED'', s7)))
                                    | (Ok, s5) \<Rightarrow>
                                        (case update_balance Step (pid recipient)
                                                (number_add (balance recipient) amnt) s5 of
                                           (Failed _, s6) \<Rightarrow>
                                        (case delete_transaction Rollback (tid debitTransaction) s6 of
                                           (_, s7) \<Rightarrow>
                                        (case delete_transaction Rollback (tid creditTransaction) s7 of
                                           (_, s8) \<Rightarrow>
                                        (case update_balance Rollback (pid user)
                                                (balance senderProfile) s8 of
                                           (_, s9) \<Rightarrow>
                                             (ErrorResponse 400 ''Failed to update recipient balance''
                                                ''TRANSACTION_FAILED'', s9))))
                                         | (Ok, s6) \<Rightarrow>
                                             (TransferSuccess debitTransaction
                                                (number_subtract (balance senderProfile) amnt), s6)))))))))"

section \<open>controllers/authController.mjs\<close>

text \<open>
  \<open>generateAccountNumber()\<close> (utils/helpers.mjs), given the text \<open>Math.random().toString()\<close>
  of the random draw.
\<close>

definition generateAccountNumber :: "string \<Rightarrow> string" where
  "generateAccountNumber randomText =
     (let prefix = ''RS''; randomNumber = slice 2 12 randomText in prefix @ randomNumber)"

text \<open>
  \<open>signup(req, res)\<close> with \<open>req.body = {name, email, password}\<close>. The password hash
  (\<open>bcrypt.hash\<close>) and the text of the random draw of the account number are given; the
  signed token of the answer is left out.
\<close>

definition signup :: "string \<Rightarrow> string \<Rightarrow> string \<Rightarrow> string \<Rightarrow> store \<Rightarrow> response \<times> store" where
  "signup nm em passwordHash randomText s =
     (case select_profile_by_email em s of
        (Inr existingUser, s1) \<Rightarrow>
          (ErrorResponse 400 ''Email already exists'' ''EMAIL_EXISTS'', s1)
      | (Inl _, s1) \<Rightarrow>
          (let accountNumber = generateAccountNumber randomText in
           case insert_profile
                  \<lparr>pid = 0, name = nm, email = em, password_hash = passwordHash,
                   account_number = accountNumber, balance = 100000, is_active = False\<rparr> s1 of
             (Inl m, s2) \<Rightarrow>
               (ErrorResponse 400 (''Failed to create user account: '' @ m)
                  ''USER_CREATION_FAILED'', s2)
           | (Inr newUser, s2) \<Rightarrow> (SignupSuccess newUser, s2)))"

text \<open>\<open>activateAccount(req, res)\<close> with \<open>req.params.userId = userId\<close>.\<close>

definition activateAccount :: "nat \<Rightarrow> store \<Rightarrow> response \<times> store" where
  "activateAccount userId s =
     (case update_profile_single (UpdateIsActive userId True) userId
             (\<lambda>p. p\<lparr>is_active := True\<rparr>) s of
        (Inl _, s1) \<Rightarrow> (ErrorResponse 404 ''User not found'' ''USER_NOT_FOUND'', s1)
      | (Inr user, s1) \<Rightarrow> (ActivateSuccess user, s1))"

section \<open>routes/auth.mjs\<close>

text \<open>
  \<open>router.patch('/activate/:userId', authenticateToken, activateAccount)\<close>: the request
  of the caller whose token decodes to \<open>callerId\<close>, for the account \<open>userId\<close>.
\<close>

definition activate_route :: "nat \<Rightarrow> nat \<Rightarrow> store \<Rightarrow> response \<times> store" where
  "activate_route callerId userId s =
     (case authenticateToken callerId s of
        (Inl denied, s1) \<Rightarrow> (denied, s1)
      | (Inr user, s1) \<Rightarrow> activateAccount userId s1)"

section \<open>routes/admin.mjs\<close>

text \<open>
  The handlers of the admin router that write to \<open>profiles\<close>, behind \<open>requireAdmin\<close>.
  \<open>userId\<close> is the route parameter (never empty, so the \<open>!userId\<close> branches are not
  taken); the bodies of the answers are left out.
\<close>

definition slice_last :: "nat \<Rightarrow> string \<Rightarrow> string" where
  "slice_last k xs = drop (length xs - k) xs"

text \<open>\<open>POST /users/:userId/activate\<close> with \<open>req.body.initial_balance\<close> and the clock.\<close>

definition admin_activate :: "nat \<Rightarrow> rat option \<Rightarrow> nat \<Rightarrow> store \<Rightarrow> response \<times> store" where
  "admin_activate userId initial_balance clock s =
     (let initial = (case initial_balance of None \<Rightarrow> 1000 | Some v \<Rightarrow> v);
          account_no = ''RS'' @ slice_last 8 (toString_radix 10 clock)
      in case update_profile_single (UpdateActivation userId) userId
                (\<lambda>p. p\<lparr>is_active := True, account_number := account_no, balance := initial\<rparr>) s of
           (Inl m, s1) \<Rightarrow> (AdminError 500 (''Failed to activate account: '' @ m), s1)
         | (Inr _, s1) \<Rightarrow> (AdminSuccess, s1))"

text \<open>\<open>POST /users/:userId/deactivate\<close>\<close>

definition admin_deactivate :: "nat \<Rightarrow> store \<Rightarrow> response \<times> store" where
  "admin_deactivate userId s =
     (case update_profile_single (UpdateIsActive userId False) userId
             (\<lambda>p. p\<lparr>is_active := False\<rparr>) s of
        (Inl m, s1) \<Rightarrow> (AdminError 500 (''Failed to deactivate account: '' @ m), s1)
      | (Inr _, s1) \<Rightarrow> (AdminSuccess, s1))"

text \<open>\<open>POST /users/:userId/balance\<close> with \<open>req.body = {balance, operation}\<close>.\<close>

definition admin_update_balance ::
  "nat \<Rightarrow> rat option \<Rightarrow> string option \<Rightarrow> store \<Rightarrow> response \<times> store" where
  "admin_update_balance userId bal operation s =
     (case bal of
        None \<Rightarrow> (AdminError 400 ''User ID and balance are required'', s)
      | Some v \<Rightarrow>
          (case select_profile_by_id userId s of
             (Inl _, s1) \<Rightarrow> (AdminError 404 ''User account not found'', s1)
           | (Inr currentProfile, s1) \<Rightarrow>
               (let opn = (case operation of None \<Rightarrow> ''set'' | Some x \<Rightarrow> x);
                    newBalance =
                      (if opn = ''add'' then number_add (balance currentProfile) v
                       else if opn = ''subtract''
                         then max 0 (number_subtract (balance currentProfile) v)
                       else v)
                in case update_profile_single (UpdateBalance userId newBalance) userId
                          (\<lambda>p. p\<lparr>balance := newBalance\<rparr>) s1 of
                     (Inl m, s2) \<Rightarrow> (AdminError 500 (''Failed to update balance: '' @ m), s2)
                   | (Inr _, s2) \<Rightarrow> (AdminSuccess, s2))))"

section \<open>The money-movement routes\<close>

text \<open>
  Every money-movement route of \<open>routes/accounts.mjs\<close> and \<open>routes/transactions.mjs\<close>
  is \<open>authenticateToken, requireActiveAccount, validator, handler\<close>; \<open>rest\<close> stands
  for the validator and the handler, whatever they are.
\<close>

definition money_route ::
  "nat \<Rightarrow> (profile \<Rightarrow> store \<Rightarrow> response \<times> store) \<Rightarrow> store \<Rightarrow> response \<times> store" where
  "money_route userId rest s =
     (case authenticateToken userId s of
        (Inl denied, s1) \<Rightarrow> (denied, s1)
      | (Inr user, s1) \<Rightarrow>
          (case requireActiveAccount user of
             Some denied \<Rightarrow> (denied, s1)
           | None \<Rightarrow> rest user s1))"

section \<open>Observations on the store\<close>

text \<open>Which store calls are writes, and the writes and rollback calls of a journal.\<close>

fun is_write :: "request \<Rightarrow> bool" where
  "is_write (SelectProfileById _) = False"
| "is_write (SelectProfileByAccountNumber _) = False"
| "is_write (SelectProfileByEmail _) = False"
| "is_write _ = True"

definition writes :: "store \<Rightarrow> call list" where
  "writes s = filter (\<lambda>c. is_write (fst (snd c))) (calls s)"

text \<open>The calls issued between a state and a later one.\<close>

definition issued :: "store \<Rightarrow> store \<Rightarrow> call list" where
  "issued s s' = drop (length (calls s)) (calls s')"

definition rollbacks :: "call list \<Rightarrow> call list" where
  "rollbacks cs = filter (\<lambda>c. fst c = Rollback) cs"

definition rollbacks_ok :: "call list \<Rightarrow> bool" where
  "rollbacks_ok cs = list_all (\<lambda>c. snd (snd c) = Ok) (rollbacks cs)"

text \<open>The identities of the stored movements are below the next one the store hands out.\<close>

definition ids_fresh :: "store \<Rightarrow> bool" where
  "ids_fresh s = list_all (\<lambda>t. tid t < next_id s) (transactions s)"

text \<open>The balance of an account, and the signed sum of its completed movements.\<close>

definition balance_in :: "profile list \<Rightarrow> nat \<Rightarrow> rat option" where
  "balance_in ps a = map_option balance (find (\<lambda>p. pid p = a) ps)"


definition signed :: "transaction \<Rightarrow> rat" where
  "signed t = (if type t = ''credit'' then amount t
               else if type t = ''debit'' then - amount t else 0)"

definition completed_sum :: "transaction list \<Rightarrow> nat \<Rightarrow> rat" where
  "completed_sum ts a =
     sum_list (map signed (filter (\<lambda>t. user_id t = a \<and> status t = ''completed'') ts))"


section \<open>Example accounts and requests\<close>

definition acct_X :: profile where
  "acct_X = \<lparr>pid = 1, name = ''X'', email = ''x@bank.test'', password_hash = ''#'',
             account_number = ''RS0000000001'', balance = 500, is_active = True\<rparr>"

definition acct_Y :: profile where
  "acct_Y = \<lparr>pid = 2, name = ''Y'', email = ''y@bank.test'', password_hash = ''#'',
             account_number = ''RS0000000002'', balance = 200, is_active = True\<rparr>"

definition store_XY :: "outcome list \<Rightarrow> store" where
  "store_XY as = \<lparr>profiles = [acct_X, acct_Y], transactions = [], next_id = 3,
                  answers = as, calls = []\<rparr>"

definition transfer_150_to_Y :: body where
  "transfer_150_to_Y = \<lparr>b_type = [], b_amount = 150, b_description = None,
                        b_to_account_number = Some ''RS0000000002'', b_transaction_type = None\<rparr>"

definition deposit_40 :: body where
  "deposit_40 = \<lparr>b_type = ''credit'', b_amount = 40, b_description = Some ''Deposit'',
                 b_to_account_number = None, b_transaction_type = Some ''deposit''\<rparr>"

definition withdraw_900 :: body where
  "withdraw_900 = \<lparr>b_type = ''debit'', b_amount = 900, b_description = None,
                   b_to_account_number = None, b_transaction_type = Some ''withdrawal''\<rparr>"

definition acct_Z :: profile where
  "acct_Z = \<lparr>pid = 7, name = ''Z'', email = ''z@bank.test'', password_hash = ''#'',
             account_number = ''RS0000000007'', balance = 100000, is_active = False\<rparr>"

definition env_1700 :: env where
  "env_1700 = \<lparr>now = 1700, random = [1, 2, 35, 10, 4, 5, 6, 7]\<rparr>"

text \<open>The two rows \<open>transfer\<close> inserts, with the identity the store gives them.\<close>

definition debit_leg :: "profile \<Rightarrow> body \<Rightarrow> nat \<Rightarrow> transaction" where
  "debit_leg user b n =
     \<lparr>tid = n, user_id = pid user, type = ''debit'', amount = b_amount b,
      description = Some (or_default (b_description b)
                            (''Transfer to '' @ template (b_to_account_number b))),
      to_account_number = b_to_account_number b,
      transaction_type = None, reference = None, status = ''completed''\<rparr>"

definition credit_leg :: "profile \<Rightarrow> profile \<Rightarrow> body \<Rightarrow> nat \<Rightarrow> transaction" where
  "credit_leg recipient senderProfile b n =
     \<lparr>tid = n, user_id = pid recipient, type = ''credit'', amount = b_amount b,
      description = Some (or_default (b_description b)
                            (''Transfer from '' @ account_number senderProfile)),
      to_account_number = Some (account_number senderProfile),
      transaction_type = None, reference = None, status = ''completed''\<rparr>"

definition set_balance :: "nat \<Rightarrow> rat \<Rightarrow> profile list \<Rightarrow> profile list" where
  "set_balance i v ps = map (\<lambda>p. if pid p = i then p\<lparr>balance := v\<rparr> else p) ps"

text \<open>What an attempted delete by identity leaves of a list of movements.\<close>

definition deleted :: "outcome \<Rightarrow> nat \<Rightarrow> transaction list \<Rightarrow> transaction list" where
  "deleted out i ts = (if out = Ok then filter (\<lambda>t. tid t \<noteq> i) ts else ts)"

text \<open>The category \<open>createTransaction\<close> works with, and the row it inserts.\<close>

definition category :: "body \<Rightarrow> string" where
  "category b = (case b_transaction_type b of None \<Rightarrow> ''transfer'' | Some c \<Rightarrow> c)"

definition movement_row :: "profile \<Rightarrow> body \<Rightarrow> env \<Rightarrow> nat \<Rightarrow> transaction" where
  "movement_row user b e n =
     \<lparr>tid = n, user_id = pid user, type = b_type b, amount = b_amount b,
      description = b_description b, to_account_number = b_to_account_number b,
      transaction_type = Some (category b),
      reference = Some (generateReference (category b) e), status = ''completed''\<rparr>"

section \<open>Histories of money movements\<close>

text \<open>
  A money-movement request as it reaches its handler: the authenticated \<open>req.user\<close>, the
  body, and for the handlers of the transaction controller the clock and random source.
  A history is a list of requests served one after the other.
\<close>

datatype operation =
    CreateTransaction profile body env
  | CreateWithdrawal profile body env
  | CreateTransfer profile body env
  | CreateDeposit profile body env
  | Transfer profile body

fun execute :: "operation \<Rightarrow> store \<Rightarrow> response \<times> store" where
  "execute (CreateTransaction user b e) s = createTransaction user b e s"
| "execute (CreateWithdrawal user b e) s = createWithdrawal user b e s"
| "execute (CreateTransfer user b e) s = createTransfer user b e s"
| "execute (CreateDeposit user b e) s = createDeposit user b e s"
| "execute (Transfer user b) s = transfer user b s"

fun run_history :: "operation list \<Rightarrow> store \<Rightarrow> store" where
  "run_history [] s = s"
| "run_history (x # xs) s = run_history xs (snd (execute x s))"











section \<open>Every request that writes to the profiles\<close>

datatype request_op =
    Money operation
  | Signup string string string string
  | ActivateAccount nat
  | AdminActivate nat "rat option" nat
  | AdminDeactivate nat
  | AdminUpdateBalance nat "rat option" "string option"

fun perform :: "request_op \<Rightarrow> store \<Rightarrow> response \<times> store" where
  "perform (Money x) s = execute x s"
| "perform (Signup nm em ph randomText) s = signup nm em ph randomText s"
| "perform (ActivateAccount userId) s = activateAccount userId s"
| "perform (AdminActivate userId initial clock) s = admin_activate userId initial clock s"
| "perform (AdminDeactivate userId) s = admin_deactivate userId s"
| "perform (AdminUpdateBalance userId bal opn) s = admin_update_balance userId bal opn s"

fun is_activation :: "request_op \<Rightarrow> bool" where
  "is_activation (ActivateAccount _) = True"
| "is_activation (AdminActivate _ _ _) = True"
| "is_activation _ = False"

text \<open>The identities of the accounts whose active flag is set.\<close>

definition active_ids :: "store \<Rightarrow> nat set" where
  "active_ids s = set (map pid (filter is_active (profiles s)))"






text \<open>A store with one account that has not been activated, and a signup on the two
  example accounts.\<close>

definition store_Z :: store where
  "store_Z = \<lparr>profiles = [acct_Z], transactions = [], next_id = 8, answers = [], calls = []\<rparr>"

definition acct_new :: profile where
  "acct_new = \<lparr>pid = 3, name = ''Zed'', email = ''z@bank.test'', password_hash = ''#'',
               account_number = ''RS42'', balance = 100000, is_active = False\<rparr>"

definition store_after_signup :: store where
  "store_after_signup =
     \<lparr>profiles = [acct_X, acct_Y, acct_new], transactions = [], next_id = 4, answers = [],
      calls = [(Step, SelectProfileByEmail ''z@bank.test'', Failed ''no rows''),
               (Step, InsertProfile ''z@bank.test'', Ok)]\<rparr>"


section \<open>Effects of the store calls\<close>

lemma filter_fresh_id:
  "list_all (\<lambda>t. tid t < n) ts \<Longrightarrow> m \<ge> n \<Longrightarrow> filter (\<lambda>t. tid t \<noteq> m) ts = ts"
  by (induction ts) auto

lemma single_Inr: "single rows = Inr r \<Longrightarrow> rows = [r]"
  by (auto simp: single_def split: list.splits)

lemma select_single_Inr:
  "select_single rq c s = (Inr p, s') \<Longrightarrow>
     filter c (profiles s) = [p] \<and>
     profiles s' = profiles s \<and> transactions s' = transactions s \<and> next_id s' = next_id s \<and>
     answers s' = tl (answers s) \<and> calls s' = calls s @ [(Step, rq, Ok)]"
  by (auto simp: select_single_def consume_def dest: single_Inr split: outcome.splits sum.splits)

lemma select_single_Inl:
  "select_single rq c s = (Inl m, s') \<Longrightarrow>
     profiles s' = profiles s \<and> transactions s' = transactions s \<and> next_id s' = next_id s \<and>
     answers s' = tl (answers s) \<and> calls s' = calls s @ [(Step, rq, Failed m)]"
  by (auto simp: select_single_def consume_def split: outcome.splits sum.splits)

lemma select_profile_by_id_Inr:
  "select_profile_by_id i s = (Inr p, s') \<Longrightarrow>
     filter (\<lambda>p. pid p = i) (profiles s) = [p] \<and>
     profiles s' = profiles s \<and> transactions s' = transactions s \<and> next_id s' = next_id s \<and>
     answers s' = tl (answers s) \<and> calls s' = calls s @ [(Step, SelectProfileById i, Ok)]"
  unfolding select_profile_by_id_def by (erule select_single_Inr)

lemma select_profile_by_id_Inl:
  "select_profile_by_id i s = (Inl m, s') \<Longrightarrow>
     profiles s' = profiles s \<and> transactions s' = transactions s \<and> next_id s' = next_id s \<and>
     answers s' = tl (answers s) \<and> calls s' = calls s @ [(Step, SelectProfileById i, Failed m)]"
  unfolding select_profile_by_id_def by (erule select_single_Inl)

lemma select_profile_by_account_number_Inr:
  "select_profile_by_account_number n s = (Inr p, s') \<Longrightarrow>
     filter (\<lambda>p. account_number p = n) (profiles s) = [p] \<and>
     profiles s' = profiles s \<and> transactions s' = transactions s \<and> next_id s' = next_id s \<and>
     answers s' = tl (answers s) \<and>
     calls s' = calls s @ [(Step, SelectProfileByAccountNumber n, Ok)]"
  unfolding select_profile_by_account_number_def by (erule select_single_Inr)

lemma select_profile_by_account_number_Inl:
  "select_profile_by_account_number n s = (Inl m, s') \<Longrightarrow>
     profiles s' = profiles s \<and> transactions s' = transactions s \<and> next_id s' = next_id s \<and>
     answers s' = tl (answers s) \<and>
     calls s' = calls s @ [(Step, SelectProfileByAccountNumber n, Failed m)]"
  unfolding select_profile_by_account_number_def by (erule select_single_Inl)

lemma insert_transaction_Inr:
  "insert_transaction row s = (Inr t, s') \<Longrightarrow>
     t = row\<lparr>tid := next_id s\<rparr> \<and>
     profiles s' = profiles s \<and>
     transactions s' = transactions s @ [row\<lparr>tid := next_id s\<rparr>] \<and>
     next_id s' = Suc (next_id s) \<and> answers s' = tl (answers s) \<and>
     calls s' = calls s @ [(Step, InsertTransaction (user_id row) (type row), Ok)]"
  by (auto simp: insert_transaction_def consume_def Let_def split: outcome.splits)

lemma insert_transaction_Inl:
  "insert_transaction row s = (Inl m, s') \<Longrightarrow>
     profiles s' = profiles s \<and> transactions s' = transactions s \<and> next_id s' = next_id s \<and>
     answers s' = tl (answers s) \<and>
     calls s' = calls s @ [(Step, InsertTransaction (user_id row) (type row), Failed m)]"
  by (auto simp: insert_transaction_def consume_def Let_def split: outcome.splits)

lemma update_balance_result:
  "update_balance pu i b s = (out, s') \<Longrightarrow>
     profiles s' = (if out = Ok then set_balance i b (profiles s) else profiles s) \<and>
     transactions s' = transactions s \<and> next_id s' = next_id s \<and>
     answers s' = tl (answers s) \<and>
     calls s' = calls s @ [(pu, UpdateBalance i b, out)]"
  by (auto simp: update_balance_def consume_def set_balance_def split: outcome.splits)

lemma delete_transaction_result:
  "delete_transaction pu i s = (out, s') \<Longrightarrow>
     profiles s' = profiles s \<and>
     transactions s' = deleted out i (transactions s) \<and> next_id s' = next_id s \<and>
     answers s' = tl (answers s) \<and>
     calls s' = calls s @ [(pu, DeleteTransaction i, out)]"
  by (auto simp: delete_transaction_def consume_def deleted_def split: outcome.splits)

lemma select_single_effect:
  "select_single rq c s = (r, s') \<Longrightarrow>
     profiles s' = profiles s \<and> transactions s' = transactions s \<and> next_id s' = next_id s \<and>
     answers s' = tl (answers s) \<and> (\<exists>out. calls s' = calls s @ [(Step, rq, out)])"
  by (auto simp: select_single_def consume_def split: outcome.splits sum.splits)

lemma select_profile_by_id_effect:
  "select_profile_by_id i s = (r, s') \<Longrightarrow>
     profiles s' = profiles s \<and> transactions s' = transactions s \<and> next_id s' = next_id s \<and>
     answers s' = tl (answers s) \<and>
     (\<exists>out. calls s' = calls s @ [(Step, SelectProfileById i, out)])"
  unfolding select_profile_by_id_def by (erule select_single_effect)

lemma select_profile_by_id_writes:
  "select_profile_by_id i s = (r, s') \<Longrightarrow> writes s' = writes s"
  by (drule select_profile_by_id_effect) (auto simp: writes_def)

lemma issued_append: "calls s' = calls s @ cs \<Longrightarrow> issued s s' = cs"
  by (simp add: issued_def)

lemma issued_same: "issued s s = []"
  by (simp add: issued_def)

lemma rollbacks_simps:
  "rollbacks [] = []"
  "rollbacks ((Step, rq, out) # cs) = rollbacks cs"
  "rollbacks ((Rollback, rq, out) # cs) = (Rollback, rq, out) # rollbacks cs"
  by (simp_all add: rollbacks_def)

lemma deleted_both:
  assumes "ids_fresh s" "tid d = next_id s" "tid c = Suc (next_id s)"
  shows "deleted o2 (Suc (next_id s)) (deleted o1 (next_id s) (transactions s @ [d, c])) =
           transactions s @ (if o1 = Ok then [] else [d]) @ (if o2 = Ok then [] else [c])"
  using assms by (auto simp: deleted_def ids_fresh_def filter_fresh_id)

lemma deleted_one:
  assumes "ids_fresh s" "tid d = next_id s"
  shows "deleted o1 (next_id s) (transactions s @ [d]) =
           transactions s @ (if o1 = Ok then [] else [d])"
  using assms by (auto simp: deleted_def ids_fresh_def filter_fresh_id)

lemma leg_ids [simp]:
  "tid (debit_leg user b n) = n" "tid (credit_leg recipient senderProfile b n) = n"
  "tid (movement_row user b e n) = n"
  by (simp_all add: debit_leg_def credit_leg_def movement_row_def)

section \<open>Numbers that do not round\<close>

lemma round_half_even_of_int [simp]: "round_half_even (of_int k) = k"
  by (simp add: round_half_even_def)

text \<open>Whole numbers up to \<open>2 ^ 53\<close> are doubles.\<close>

lemma ilog2_int:
  assumes "1 \<le> m" "m \<le> 2 ^ 53"
  shows "ilog2 (of_int m) = bitlen m - 1" "0 \<le> bitlen m - 1" "bitlen m - 1 \<le> 53"
    "2 ^ nat (bitlen m - 1) \<le> m"
proof -
  show "ilog2 (of_int m) = bitlen m - 1" using assms(1) by (simp add: ilog2_def)
  show lo: "2 ^ nat (bitlen m - 1) \<le> m" using bitlen_bounds [of m] assms(1) by simp
  show "0 \<le> bitlen m - 1" using assms(1) by (simp add: bitlen_def floorlog_def)
  show "bitlen m - 1 \<le> 53"
  proof (rule ccontr)
    assume "\<not> bitlen m - 1 \<le> 53"
    then have "54 \<le> nat (bitlen m - 1)" by simp
    then have "(2::int) ^ 54 \<le> 2 ^ nat (bitlen m - 1)" by (rule power_increasing) simp
    with lo assms(2) show False by simp
  qed
qed

lemma round_double_int:
  assumes "x \<in> \<int>" "\<bar>x\<bar> \<le> 2 ^ 53"
  shows "round_double x = x"
proof (cases "x = 0")
  case True
  then show ?thesis by (simp add: round_double_def)
next
  case False
  from assms(1) obtain n :: int where x: "x = of_int n" by (auto elim: Ints_cases)
  define m where "m = \<bar>n\<bar>"
  have ax: "\<bar>x\<bar> = of_int m" by (simp add: x m_def)
  have m1: "1 \<le> m" using False x by (simp add: m_def)
  have m53: "m \<le> 2 ^ 53" using assms(2) ax by (metis of_int_le_iff of_int_numeral of_int_power)
  define e where "e = bitlen m - 1"
  note il = ilog2_int [OF m1 m53, folded e_def]
  have q: "max e (- 1022) - 52 = e - 52" using il(2) by simp
  have r: "round_double x = sgn x * of_int (round_half_even (\<bar>x\<bar> / pow2 (e - 52))) * pow2 (e - 52)"
    using False il(1) by (simp add: round_double_def ax q Let_def)
  show ?thesis
  proof (cases "e = 53")
    case True
    with il(4) have "2 ^ 53 \<le> m" by simp
    with m53 have m: "m = 2 ^ 53" by simp
    have "\<bar>x\<bar> / pow2 (e - 52) = of_int (2 ^ 52)"
      by (simp add: ax m True pow2_def)
    then have "round_half_even (\<bar>x\<bar> / pow2 (e - 52)) = 2 ^ 52"
      by (simp only: round_half_even_of_int)
    then have "round_double x = sgn x * (2 ^ 52 * 2)"
      by (simp add: r True pow2_def)
    also have "\<dots> = sgn x * \<bar>x\<bar>" by (simp add: ax m)
    finally show ?thesis by (simp add: sgn_mult_abs)
  next
    case ne: False
    with il(3) have le: "e \<le> 52" by simp
    define k where "k = nat (52 - e)"
    have p: "pow2 (e - 52) = 1 / 2 ^ k"
      using le by (auto simp: pow2_def k_def)
    have "\<bar>x\<bar> / pow2 (e - 52) = of_int (m * 2 ^ k)"
      by (simp add: ax p)
    then have "round_half_even (\<bar>x\<bar> / pow2 (e - 52)) = m * 2 ^ k"
      by (simp only: round_half_even_of_int)
    then have "round_double x = sgn x * of_int (m * 2 ^ k) * (1 / 2 ^ k)"
      by (simp add: r p)
    also have "\<dots> = sgn x * \<bar>x\<bar>" by (simp add: ax)
    finally show ?thesis by (simp add: sgn_mult_abs)
  qed
qed

lemma exact_int:
  assumes "x \<in> \<int>" "\<bar>x\<bar> \<le> 2 ^ 53"
  shows "exact x"
proof -
  have r: "round_double x = x" using assms by (rule round_double_int)
  have "\<not> overflows x"
  proof (cases "x = 0")
    case True
    with r have "round_double x = 0" by simp
    then show ?thesis by (simp add: overflows_def)
  next
    case False
    from assms(1) obtain n :: int where x: "x = of_int n" by (auto elim: Ints_cases)
    have ax: "\<bar>x\<bar> = of_int \<bar>n\<bar>" by (simp add: x)
    have m1: "1 \<le> \<bar>n\<bar>" using False x by simp
    have m53: "\<bar>n\<bar> \<le> 2 ^ 53"
      using assms(2) ax by (metis of_int_le_iff of_int_numeral of_int_power)
    from ilog2_int(1,3) [OF m1 m53] show ?thesis by (simp add: overflows_def r ax)
  qed
  with r show ?thesis by (simp add: exact_def)
qed

section \<open>The paths through \<open>createTransaction\<close>\<close>

lemma createTransaction_cases [case_names inactive bad_type bad_amount bad_category
    read_failed insufficient insert_failed update_failed success]:
  assumes inactive: "\<not> is_active user \<Longrightarrow>
           createTransaction user b e s =
             (ErrorResponse 403
                ''Account is not active. Please wait for activation to perform transactions.''
                ''ACCOUNT_INACTIVE'', s) \<Longrightarrow> P"
    and bad_type: "is_active user \<Longrightarrow> b_type b \<noteq> ''credit'' \<Longrightarrow> b_type b \<noteq> ''debit'' \<Longrightarrow>
           createTransaction user b e s =
             (ErrorResponse 400 ''Invalid transaction type'' ''INVALID_TRANSACTION_TYPE'', s) \<Longrightarrow> P"
    and bad_amount: "is_active user \<Longrightarrow> b_amount b \<le> 0 \<Longrightarrow>
           createTransaction user b e s =
             (ErrorResponse 400 ''Amount must be positive'' ''INVALID_AMOUNT'', s) \<Longrightarrow> P"
    and bad_category: "is_active user \<Longrightarrow> category b \<notin> set validTransactionTypes \<Longrightarrow>
           createTransaction user b e s =
             (ErrorResponse 400 ''Invalid transaction type'' ''INVALID_TRANSACTION_CATEGORY'', s) \<Longrightarrow> P"
    and read_failed: "\<And>m s'. is_active user \<Longrightarrow>
           createTransaction user b e s =
             (ErrorResponse 400 ''Failed to fetch account balance'' ''ACCOUNT_NOT_FOUND'', s') \<Longrightarrow>
           profiles s' = profiles s \<Longrightarrow> transactions s' = transactions s \<Longrightarrow>
           next_id s' = next_id s \<Longrightarrow>
           calls s' = calls s @ [(Step, SelectProfileById (pid user), Failed m)] \<Longrightarrow> P"
    and insufficient: "\<And>prof s'. is_active user \<Longrightarrow>
           filter (\<lambda>p. pid p = pid user) (profiles s) = [prof] \<Longrightarrow>
           b_type b = ''debit'' \<Longrightarrow> balance prof < b_amount b \<Longrightarrow>
           createTransaction user b e s =
             (ErrorResponse 400 ''Insufficient funds'' ''INSUFFICIENT_FUNDS'', s') \<Longrightarrow>
           profiles s' = profiles s \<Longrightarrow> transactions s' = transactions s \<Longrightarrow>
           next_id s' = next_id s \<Longrightarrow>
           calls s' = calls s @ [(Step, SelectProfileById (pid user), Ok)] \<Longrightarrow> P"
    and insert_failed: "\<And>prof m s'. is_active user \<Longrightarrow>
           filter (\<lambda>p. pid p = pid user) (profiles s) = [prof] \<Longrightarrow>
           createTransaction user b e s = (ErrorResponse 400 m ''TRANSACTION_FAILED'', s') \<Longrightarrow>
           profiles s' = profiles s \<Longrightarrow> transactions s' = transactions s \<Longrightarrow>
           next_id s' = next_id s \<Longrightarrow>
           calls s' = calls s @ [(Step, SelectProfileById (pid user), Ok),
                                 (Step, InsertTransaction (pid user) (b_type b), Failed m)] \<Longrightarrow> P"
    and update_failed: "\<And>prof m out s'. is_active user \<Longrightarrow>
           filter (\<lambda>p. pid p = pid user) (profiles s) = [prof] \<Longrightarrow>
           createTransaction user b e s =
             (ErrorResponse 400 ''Transaction failed'' ''TRANSACTION_FAILED'', s') \<Longrightarrow>
           profiles s' = profiles s \<Longrightarrow>
           transactions s' =
             deleted out (next_id s) (transactions s @ [movement_row user b e (next_id s)]) \<Longrightarrow>
           next_id s' = Suc (next_id s) \<Longrightarrow>
           calls s' = calls s @
             [(Step, SelectProfileById (pid user), Ok),
              (Step, InsertTransaction (pid user) (b_type b), Ok),
              (Step, UpdateBalance (pid user)
                       (calculateNewBalance (balance prof) (b_amount b) (b_type b)), Failed m),
              (Rollback, DeleteTransaction (next_id s), out)] \<Longrightarrow> P"
    and success: "\<And>prof s'. is_active user \<Longrightarrow>
           filter (\<lambda>p. pid p = pid user) (profiles s) = [prof] \<Longrightarrow>
           b_type b = ''credit'' \<or> b_type b = ''debit'' \<Longrightarrow> 0 < b_amount b \<Longrightarrow>
           \<not> (b_type b = ''debit'' \<and> balance prof < b_amount b) \<Longrightarrow>
           category b \<in> set validTransactionTypes \<Longrightarrow>
           createTransaction user b e s =
             (TransactionSuccess (movement_row user b e (next_id s))
                (calculateNewBalance (balance prof) (b_amount b) (b_type b)), s') \<Longrightarrow>
           profiles s' =
             set_balance (pid user)
               (calculateNewBalance (balance prof) (b_amount b) (b_type b)) (profiles s) \<Longrightarrow>
           transactions s' = transactions s @ [movement_row user b e (next_id s)] \<Longrightarrow>
           next_id s' = Suc (next_id s) \<Longrightarrow>
           calls s' = calls s @
             [(Step, SelectProfileById (pid user), Ok),
              (Step, InsertTransaction (pid user) (b_type b), Ok),
              (Step, UpdateBalance (pid user)
                       (calculateNewBalance (balance prof) (b_amount b) (b_type b)), Ok)] \<Longrightarrow> P"
  shows P
proof (cases "is_active user")
  case False
  then show P using inactive by (simp add: createTransaction_def Let_def)
next
  case act: True
  show P
  proof (cases "b_type b = ''credit'' \<or> b_type b = ''debit''")
    case False
    with act show P using bad_type by (simp add: createTransaction_def Let_def)
  next
    case ty: True
    show P
    proof (cases "0 < b_amount b")
      case False
      with act ty show P using bad_amount by (auto simp add: createTransaction_def Let_def)
    next
      case pos: True
      show P
      proof (cases "category b \<in> set validTransactionTypes")
        case False
        with act ty pos show P
          using bad_category by (auto simp add: createTransaction_def Let_def category_def)
      next
        case cat: True
        note ok = act ty pos cat
        obtain r1 s1 where sel: "select_profile_by_id (pid user) s = (r1, s1)"
          by (cases "select_profile_by_id (pid user) s")
        show P
        proof (cases r1)
          case (Inl m)
          note s1 = select_profile_by_id_Inl [OF sel [unfolded Inl]]
          have T: "createTransaction user b e s =
                  (ErrorResponse 400 ''Failed to fetch account balance'' ''ACCOUNT_NOT_FOUND'', s1)"
            using ok sel Inl by (auto simp: createTransaction_def Let_def category_def)
          show P by (rule read_failed [OF act T, of m]) (use s1 in simp_all)
        next
          case (Inr prof)
          note r1 = Inr
          note s1 = select_profile_by_id_Inr [OF sel [unfolded Inr]]
          from s1 have prof: "filter (\<lambda>p. pid p = pid user) (profiles s) = [prof]" by simp
          show P
          proof (cases "b_type b = ''debit'' \<and> balance prof < b_amount b")
            case True
            have T: "createTransaction user b e s =
                    (ErrorResponse 400 ''Insufficient funds'' ''INSUFFICIENT_FUNDS'', s1)"
              using ok sel r1 True by (auto simp: createTransaction_def Let_def category_def)
            show P
              by (rule insufficient [OF act prof conjunct1 [OF True] conjunct2 [OF True] T])
                 (use s1 in simp_all)
          next
            case funds: False
            obtain r2 s2 where ins: "insert_transaction (movement_row user b e 0) s1 = (r2, s2)"
              by (cases "insert_transaction (movement_row user b e 0) s1")
            show P
            proof (cases r2)
              case (Inl m)
              note s2 = insert_transaction_Inl [OF ins [unfolded Inl]]
              have T: "createTransaction user b e s =
                         (ErrorResponse 400 m ''TRANSACTION_FAILED'', s2)"
                using ok sel r1 funds ins Inl
                by (auto simp: createTransaction_def Let_def category_def movement_row_def)
              show P
                by (rule insert_failed [OF act prof T])
                   (use s1 s2 in \<open>simp_all add: movement_row_def\<close>)
            next
              case (Inr txn)
              note r2 = Inr
              note s2 = insert_transaction_Inr [OF ins [unfolded Inr]]
              have txn: "txn = movement_row user b e (next_id s)"
                using s1 s2 by (simp add: movement_row_def)
              let ?nb = "calculateNewBalance (balance prof) (b_amount b) (b_type b)"
              obtain o3 s3 where upd: "update_balance Step (pid user) ?nb s2 = (o3, s3)"
                by (cases "update_balance Step (pid user) ?nb s2")
              note s3 = update_balance_result [OF upd]
              show P
              proof (cases o3)
                case Ok
                have T: "createTransaction user b e s =
                           (TransactionSuccess (movement_row user b e (next_id s)) ?nb, s3)"
                  using ok sel r1 funds ins r2 upd Ok txn
                  by (auto simp: createTransaction_def Let_def category_def movement_row_def)
                show P
                  by (rule success [OF act prof ty pos funds cat T])
                     (use s1 s2 s3 Ok in \<open>simp_all add: movement_row_def\<close>)
              next
                case (Failed m)
                obtain o4 s4 where del: "delete_transaction Rollback (tid txn) s3 = (o4, s4)"
                  by (cases "delete_transaction Rollback (tid txn) s3")
                note s4 = delete_transaction_result [OF del]
                have T: "createTransaction user b e s =
                           (ErrorResponse 400 ''Transaction failed'' ''TRANSACTION_FAILED'', s4)"
                  using ok sel r1 funds ins r2 upd Failed del
                  by (auto simp: createTransaction_def Let_def category_def movement_row_def)
                show P
                  by (rule update_failed [OF act prof T, of o4 m])
                     (use s1 s2 s3 s4 Failed in \<open>simp_all add: movement_row_def\<close>)
              qed
            qed
          qed
        qed
      qed
    qed
  qed
qed

lemma restore_balances:
  assumes f: "filter (\<lambda>p. pid p = u) ps = [q]"
  shows "set_balance u (balance q) (set_balance u v ps) = ps"
proof -
  have "\<And>p. p \<in> set ps \<Longrightarrow> pid p = u \<Longrightarrow> p = q"
  proof -
    fix p assume "p \<in> set ps" "pid p = u"
    then have "p \<in> set (filter (\<lambda>p. pid p = u) ps)" by simp
    with f show "p = q" by simp
  qed
  then show ?thesis by (auto simp: set_balance_def intro!: map_idI)
qed

section \<open>The paths through \<open>transfer\<close>\<close>

lemma transfer_cases [case_names inactive bad_amount no_recipient recipient_inactive
    self_transfer no_sender insufficient debit_failed credit_failed sender_update_failed
    recipient_update_failed success]:
  assumes inactive: "\<not> is_active user \<Longrightarrow>
           transfer user b s =
             (ErrorResponse 403
                ''Account is not active. Please wait for activation to perform transfers.''
                ''ACCOUNT_INACTIVE'', s) \<Longrightarrow> P"
    and bad_amount: "is_active user \<Longrightarrow> b_amount b \<le> 0 \<Longrightarrow>
           transfer user b s =
             (ErrorResponse 400 ''Amount must be positive'' ''INVALID_AMOUNT'', s) \<Longrightarrow> P"
    and no_recipient: "\<And>m s'. is_active user \<Longrightarrow>
           transfer user b s =
             (ErrorResponse 400 ''Recipient account not found'' ''ACCOUNT_NOT_FOUND'', s') \<Longrightarrow>
           profiles s' = profiles s \<Longrightarrow> transactions s' = transactions s \<Longrightarrow>
           next_id s' = next_id s \<Longrightarrow>
           calls s' = calls s @
             [(Step, SelectProfileByAccountNumber (template (b_to_account_number b)), Failed m)] \<Longrightarrow> P"
    and recipient_inactive: "\<And>recipient s'. is_active user \<Longrightarrow>
           filter (\<lambda>p. account_number p = template (b_to_account_number b)) (profiles s)
             = [recipient] \<Longrightarrow>
           \<not> is_active recipient \<Longrightarrow>
           transfer user b s =
             (ErrorResponse 400 ''Recipient account is not active'' ''RECIPIENT_INACTIVE'', s') \<Longrightarrow>
           profiles s' = profiles s \<Longrightarrow> transactions s' = transactions s \<Longrightarrow>
           next_id s' = next_id s \<Longrightarrow>
           calls s' = calls s @
             [(Step, SelectProfileByAccountNumber (template (b_to_account_number b)), Ok)] \<Longrightarrow> P"
    and self_transfer: "\<And>recipient s'. is_active user \<Longrightarrow>
           filter (\<lambda>p. account_number p = template (b_to_account_number b)) (profiles s)
             = [recipient] \<Longrightarrow>
           pid recipient = pid user \<Longrightarrow>
           transfer user b s =
             (ErrorResponse 400 ''Cannot transfer to your own account'' ''SELF_TRANSFER'', s') \<Longrightarrow>
           profiles s' = profiles s \<Longrightarrow> transactions s' = transactions s \<Longrightarrow>
           next_id s' = next_id s \<Longrightarrow>
           calls s' = calls s @
             [(Step, SelectProfileByAccountNumber (template (b_to_account_number b)), Ok)] \<Longrightarrow> P"
    and no_sender: "\<And>m s'. is_active user \<Longrightarrow>
           transfer user b s =
             (ErrorResponse 400 ''Failed to fetch sender account'' ''ACCOUNT_NOT_FOUND'', s') \<Longrightarrow>
           profiles s' = profiles s \<Longrightarrow> transactions s' = transactions s \<Longrightarrow>
           next_id s' = next_id s \<Longrightarrow>
           calls s' = calls s @
             [(Step, SelectProfileByAccountNumber (template (b_to_account_number b)), Ok),
              (Step, SelectProfileById (pid user), Failed m)] \<Longrightarrow> P"
    and insufficient: "\<And>senderProfile s'. is_active user \<Longrightarrow>
           filter (\<lambda>p. pid p = pid user) (profiles s) = [senderProfile] \<Longrightarrow>
           balance senderProfile < b_amount b \<Longrightarrow>
           transfer user b s =
             (ErrorResponse 400 ''Insufficient funds'' ''INSUFFICIENT_FUNDS'', s') \<Longrightarrow>
           profiles s' = profiles s \<Longrightarrow> transactions s' = transactions s \<Longrightarrow>
           next_id s' = next_id s \<Longrightarrow>
           calls s' = calls s @
             [(Step, SelectProfileByAccountNumber (template (b_to_account_number b)), Ok),
              (Step, SelectProfileById (pid user), Ok)] \<Longrightarrow> P"
    and debit_failed: "\<And>recipient senderProfile m s'.
           filter (\<lambda>p. account_number p = template (b_to_account_number b)) (profiles s)
             = [recipient] \<Longrightarrow>
           filter (\<lambda>p. pid p = pid user) (profiles s) = [senderProfile] \<Longrightarrow>
           transfer user b s =
             (ErrorResponse 400 ''Failed to create debit transaction'' ''TRANSACTION_FAILED'', s') \<Longrightarrow>
           profiles s' = profiles s \<Longrightarrow> transactions s' = transactions s \<Longrightarrow>
           next_id s' = next_id s \<Longrightarrow>
           calls s' = calls s @
             [(Step, SelectProfileByAccountNumber (template (b_to_account_number b)), Ok),
              (Step, SelectProfileById (pid user), Ok),
              (Step, InsertTransaction (pid user) ''debit'', Failed m)] \<Longrightarrow> P"
    and credit_failed: "\<And>recipient senderProfile m o1 s'.
           filter (\<lambda>p. account_number p = template (b_to_account_number b)) (profiles s)
             = [recipient] \<Longrightarrow>
           filter (\<lambda>p. pid p = pid user) (profiles s) = [senderProfile] \<Longrightarrow>
           transfer user b s =
             (ErrorResponse 400 ''Failed to create credit transaction'' ''TRANSACTION_FAILED'', s') \<Longrightarrow>
           profiles s' = profiles s \<Longrightarrow>
           transactions s' =
             deleted o1 (next_id s) (transactions s @ [debit_leg user b (next_id s)]) \<Longrightarrow>
           next_id s' = Suc (next_id s) \<Longrightarrow>
           calls s' = calls s @
             [(Step, SelectProfileByAccountNumber (template (b_to_account_number b)), Ok),
              (Step, SelectProfileById (pid user), Ok),
              (Step, InsertTransaction (pid user) ''debit'', Ok),
              (Step, InsertTransaction (pid recipient) ''credit'', Failed m),
              (Rollback, DeleteTransaction (next_id s), o1)] \<Longrightarrow> P"
    and sender_update_failed: "\<And>recipient senderProfile m o1 o2 s'.
           filter (\<lambda>p. account_number p = template (b_to_account_number b)) (profiles s)
             = [recipient] \<Longrightarrow>
           filter (\<lambda>p. pid p = pid user) (profiles s) = [senderProfile] \<Longrightarrow>
           transfer user b s =
             (ErrorResponse 400 ''Failed to update sender balance'' ''TRANSACTION_FAILED'', s') \<Longrightarrow>
           profiles s' = profiles s \<Longrightarrow>
           transactions s' =
             deleted o2 (Suc (next_id s)) (deleted o1 (next_id s)
               (transactions s @ [debit_leg user b (next_id s),
                                  credit_leg recipient senderProfile b (Suc (next_id s))])) \<Longrightarrow>
           next_id s' = Suc (Suc (next_id s)) \<Longrightarrow>
           calls s' = calls s @
             [(Step, SelectProfileByAccountNumber (template (b_to_account_number b)), Ok),
              (Step, SelectProfileById (pid user), Ok),
              (Step, InsertTransaction (pid user) ''debit'', Ok),
              (Step, InsertTransaction (pid recipient) ''credit'', Ok),
              (Step, UpdateBalance (pid user) (number_subtract (balance senderProfile) (b_amount b)), Failed m),
              (Rollback, DeleteTransaction (next_id s), o1),
              (Rollback, DeleteTransaction (Suc (next_id s)), o2)] \<Longrightarrow> P"
    and recipient_update_failed: "\<And>recipient senderProfile m o1 o2 o3 s'.
           filter (\<lambda>p. account_number p = template (b_to_account_number b)) (profiles s)
             = [recipient] \<Longrightarrow>
           filter (\<lambda>p. pid p = pid user) (profiles s) = [senderProfile] \<Longrightarrow>
           pid recipient \<noteq> pid user \<Longrightarrow>
           transfer user b s =
             (ErrorResponse 400 ''Failed to update recipient balance'' ''TRANSACTION_FAILED'', s') \<Longrightarrow>
           profiles s' =
             (if o3 = Ok then profiles s
              else set_balance (pid user) (number_subtract (balance senderProfile) (b_amount b)) (profiles s)) \<Longrightarrow>
           transactions s' =
             deleted o2 (Suc (next_id s)) (deleted o1 (next_id s)
               (transactions s @ [debit_leg user b (next_id s),
                                  credit_leg recipient senderProfile b (Suc (next_id s))])) \<Longrightarrow>
           next_id s' = Suc (Suc (next_id s)) \<Longrightarrow>
           calls s' = calls s @
             [(Step, SelectProfileByAccountNumber (template (b_to_account_number b)), Ok),
              (Step, SelectProfileById (pid user), Ok),
              (Step, InsertTransaction (pid user) ''debit'', Ok),
              (Step, InsertTransaction (pid recipient) ''credit'', Ok),
              (Step, UpdateBalance (pid user) (number_subtract (balance senderProfile) (b_amount b)), Ok),
              (Step, UpdateBalance (pid recipient) (number_add (balance recipient) (b_amount b)), Failed m),
              (Rollback, DeleteTransaction (next_id s), o1),
              (Rollback, DeleteTransaction (Suc (next_id s)), o2),
              (Rollback, UpdateBalance (pid user) (balance senderProfile), o3)] \<Longrightarrow> P"
    and success: "\<And>recipient senderProfile s'. is_active user \<Longrightarrow> 0 < b_amount b \<Longrightarrow>
           filter (\<lambda>p. account_number p = template (b_to_account_number b)) (profiles s)
             = [recipient] \<Longrightarrow>
           is_active recipient \<Longrightarrow> pid recipient \<noteq> pid user \<Longrightarrow>
           filter (\<lambda>p. pid p = pid user) (profiles s) = [senderProfile] \<Longrightarrow>
           \<not> balance senderProfile < b_amount b \<Longrightarrow>
           transfer user b s =
             (TransferSuccess (debit_leg user b (next_id s)) (number_subtract (balance senderProfile) (b_amount b)),
              s') \<Longrightarrow>
           profiles s' =
             set_balance (pid recipient) (number_add (balance recipient) (b_amount b))
               (set_balance (pid user) (number_subtract (balance senderProfile) (b_amount b)) (profiles s)) \<Longrightarrow>
           transactions s' = transactions s @
             [debit_leg user b (next_id s),
              credit_leg recipient senderProfile b (Suc (next_id s))] \<Longrightarrow>
           next_id s' = Suc (Suc (next_id s)) \<Longrightarrow>
           calls s' = calls s @
             [(Step, SelectProfileByAccountNumber (template (b_to_account_number b)), Ok),
              (Step, SelectProfileById (pid user), Ok),
              (Step, InsertTransaction (pid user) ''debit'', Ok),
              (Step, InsertTransaction (pid recipient) ''credit'', Ok),
              (Step, UpdateBalance (pid user) (number_subtract (balance senderProfile) (b_amount b)), Ok),
              (Step, UpdateBalance (pid recipient) (number_add (balance recipient) (b_amount b)), Ok)] \<Longrightarrow> P"
  shows P
proof (cases "is_active user")
  case False
  then show P using inactive by (simp add: transfer_def)
next
  case act: True
  let ?to = "template (b_to_account_number b)"
  let ?amt = "b_amount b"
  show P
  proof (cases "0 < ?amt")
    case False
    with act show P using bad_amount by (simp add: transfer_def Let_def)
  next
    case pos: True
    obtain r1 s1 where sel1: "select_profile_by_account_number ?to s = (r1, s1)"
      by (cases "select_profile_by_account_number ?to s")
    show P
    proof (cases r1)
      case (Inl m)
      note s1 = select_profile_by_account_number_Inl [OF sel1 [unfolded Inl]]
      have T: "transfer user b s =
              (ErrorResponse 400 ''Recipient account not found'' ''ACCOUNT_NOT_FOUND'', s1)"
        using act pos sel1 Inl by (simp add: transfer_def Let_def)
      show P by (rule no_recipient [OF act T, of m]) (use s1 in simp_all)
    next
      case (Inr recipient)
      note r1 = Inr
      note s1 = select_profile_by_account_number_Inr [OF sel1 [unfolded Inr]]
      from s1 have rec:
        "filter (\<lambda>p. account_number p = ?to) (profiles s) = [recipient]" by simp
      show P
      proof (cases "is_active recipient")
        case False
        have T: "transfer user b s =
                (ErrorResponse 400 ''Recipient account is not active'' ''RECIPIENT_INACTIVE'', s1)"
          using act pos sel1 r1 False by (simp add: transfer_def Let_def)
        show P by (rule recipient_inactive [OF act rec False T]) (use s1 in simp_all)
      next
        case ract: True
        show P
        proof (cases "pid recipient = pid user")
          case True
          have T: "transfer user b s =
                  (ErrorResponse 400 ''Cannot transfer to your own account'' ''SELF_TRANSFER'', s1)"
            using act pos sel1 r1 ract True by (simp add: transfer_def Let_def)
          show P by (rule self_transfer [OF act rec True T]) (use s1 in simp_all)
        next
          case other: False
          obtain r2 s2 where sel2: "select_profile_by_id (pid user) s1 = (r2, s2)"
            by (cases "select_profile_by_id (pid user) s1")
          show P
          proof (cases r2)
            case (Inl m)
            note s2 = select_profile_by_id_Inl [OF sel2 [unfolded Inl]]
            have T: "transfer user b s =
                    (ErrorResponse 400 ''Failed to fetch sender account'' ''ACCOUNT_NOT_FOUND'', s2)"
              using act pos sel1 r1 ract other sel2 Inl by (simp add: transfer_def Let_def)
            show P by (rule no_sender [OF act T, of m]) (use s1 s2 in simp_all)
          next
            case (Inr senderProfile)
            note r2 = Inr
            note s2 = select_profile_by_id_Inr [OF sel2 [unfolded Inr]]
            have sender: "filter (\<lambda>p. pid p = pid user) (profiles s) = [senderProfile]"
              using s1 s2 by simp
            show P
            proof (cases "balance senderProfile < ?amt")
              case True
              have T: "transfer user b s =
                      (ErrorResponse 400 ''Insufficient funds'' ''INSUFFICIENT_FUNDS'', s2)"
                using act pos sel1 r1 ract other sel2 r2 True by (simp add: transfer_def Let_def)
              show P by (rule insufficient [OF act sender True T]) (use s1 s2 in simp_all)
            next
              case funds: False
              note pre = act pos sel1 r1 ract other sel2 r2 funds
              obtain r3 s3 where ins1: "insert_transaction (debit_leg user b 0) s2 = (r3, s3)"
                by (cases "insert_transaction (debit_leg user b 0) s2")
              show P
              proof (cases r3)
                case (Inl m)
                note s3 = insert_transaction_Inl [OF ins1 [unfolded Inl]]
                have T: "transfer user b s =
                        (ErrorResponse 400 ''Failed to create debit transaction''
                           ''TRANSACTION_FAILED'', s3)"
                  using pre ins1 Inl
                  by (simp add: transfer_def Let_def debit_leg_def credit_leg_def)
                show P
                  by (rule debit_failed [OF rec sender T, of m])
                     (use s1 s2 s3 in \<open>simp_all add: debit_leg_def\<close>)
              next
                case (Inr d)
                note r3 = Inr
                note s3 = insert_transaction_Inr [OF ins1 [unfolded Inr]]
                have d: "d = debit_leg user b (next_id s)" "tid d = next_id s"
                  using s1 s2 s3 by (simp_all add: debit_leg_def)
                obtain r4 s4 where
                  ins2: "insert_transaction (credit_leg recipient senderProfile b 0) s3 = (r4, s4)"
                  by (cases "insert_transaction (credit_leg recipient senderProfile b 0) s3")
                show P
                proof (cases r4)
                  case (Inl m)
                  note s4 = insert_transaction_Inl [OF ins2 [unfolded Inl]]
                  obtain o1 s5 where del: "delete_transaction Rollback (tid d) s4 = (o1, s5)"
                    by (cases "delete_transaction Rollback (tid d) s4")
                  note s5 = delete_transaction_result [OF del]
                  have T: "transfer user b s =
                          (ErrorResponse 400 ''Failed to create credit transaction''
                             ''TRANSACTION_FAILED'', s5)"
                    using pre ins1 r3 ins2 Inl del
                    by (simp add: transfer_def Let_def debit_leg_def credit_leg_def)
                  show P
                    by (rule credit_failed [OF rec sender T, of o1 m])
                       (use s1 s2 s3 s4 s5 d(2) in \<open>simp_all add: debit_leg_def credit_leg_def\<close>)
                next
                  case (Inr c)
                  note r4 = Inr
                  note s4 = insert_transaction_Inr [OF ins2 [unfolded Inr]]
                  have c: "c = credit_leg recipient senderProfile b (Suc (next_id s))"
                    "tid c = Suc (next_id s)"
                    using s1 s2 s3 s4 by (simp_all add: credit_leg_def)
                  have ts4: "transactions s4 = transactions s @
                      [debit_leg user b (next_id s),
                       credit_leg recipient senderProfile b (Suc (next_id s))]"
                    using s1 s2 s3 s4 by (simp add: debit_leg_def credit_leg_def)
                  have cs4: "calls s4 = calls s @
                      [(Step, SelectProfileByAccountNumber ?to, Ok),
                       (Step, SelectProfileById (pid user), Ok),
                       (Step, InsertTransaction (pid user) ''debit'', Ok),
                       (Step, InsertTransaction (pid recipient) ''credit'', Ok)]"
                    using s1 s2 s3 s4 by (simp add: debit_leg_def credit_leg_def)
                  have ps4: "profiles s4 = profiles s" "next_id s4 = Suc (Suc (next_id s))"
                    using s1 s2 s3 s4 by simp_all
                  obtain o5 s5 where upd1:
                    "update_balance Step (pid user) (number_subtract (balance senderProfile) ?amt) s4 = (o5, s5)"
                    by (cases "update_balance Step (pid user) (number_subtract (balance senderProfile) ?amt) s4")
                  note s5 = update_balance_result [OF upd1]
                  show P
                  proof (cases o5)
                    case (Failed m)
                    obtain o1 s6 where del1: "delete_transaction Rollback (tid d) s5 = (o1, s6)"
                      by (cases "delete_transaction Rollback (tid d) s5")
                    obtain o2 s7 where del2: "delete_transaction Rollback (tid c) s6 = (o2, s7)"
                      by (cases "delete_transaction Rollback (tid c) s6")
                    note s6 = delete_transaction_result [OF del1]
                    note s7 = delete_transaction_result [OF del2]
                    have T: "transfer user b s =
                            (ErrorResponse 400 ''Failed to update sender balance''
                               ''TRANSACTION_FAILED'', s7)"
                      using pre ins1 r3 ins2 r4 upd1 Failed del1 del2
                      by (simp add: transfer_def Let_def debit_leg_def credit_leg_def)
                    show P
                      by (rule sender_update_failed [OF rec sender T, of o2 o1 m])
                         (use ts4 cs4 ps4 s5 s6 s7 d(2) c(2) Failed in simp_all)
                  next
                    case Ok
                    note o5 = Ok
                    obtain o6 s6 where upd2:
                      "update_balance Step (pid recipient) (number_add (balance recipient) ?amt) s5 = (o6, s6)"
                      by (cases "update_balance Step (pid recipient) (number_add (balance recipient) ?amt) s5")
                    note s6 = update_balance_result [OF upd2]
                    show P
                    proof (cases o6)
                      case Ok
                      have T: "transfer user b s =
                              (TransferSuccess (debit_leg user b (next_id s))
                                 (number_subtract (balance senderProfile) ?amt), s6)"
                        using pre ins1 r3 ins2 r4 upd1 o5 upd2 Ok d(1)
                        by (simp add: transfer_def Let_def debit_leg_def credit_leg_def)
                      show P
                        by (rule success [OF act pos rec ract other sender funds T])
                           (use ts4 cs4 ps4 s5 s6 o5 Ok in simp_all)
                    next
                      case (Failed m)
                      obtain o1 s7 where del1: "delete_transaction Rollback (tid d) s6 = (o1, s7)"
                        by (cases "delete_transaction Rollback (tid d) s6")
                      obtain o2 s8 where del2: "delete_transaction Rollback (tid c) s7 = (o2, s8)"
                        by (cases "delete_transaction Rollback (tid c) s7")
                      obtain o3 s9 where upd3:
                        "update_balance Rollback (pid user) (balance senderProfile) s8 = (o3, s9)"
                        by (cases "update_balance Rollback (pid user) (balance senderProfile) s8")
                      note s7 = delete_transaction_result [OF del1]
                      note s8 = delete_transaction_result [OF del2]
                      note s9 = update_balance_result [OF upd3]
                      have T: "transfer user b s =
                              (ErrorResponse 400 ''Failed to update recipient balance''
                                 ''TRANSACTION_FAILED'', s9)"
                        using pre ins1 r3 ins2 r4 upd1 o5 upd2 Failed del1 del2 upd3
                        by (simp add: transfer_def Let_def debit_leg_def credit_leg_def)
                      have restored:
                        "set_balance (pid user) (balance senderProfile)
                           (set_balance (pid user) (number_subtract (balance senderProfile) ?amt) (profiles s))
                         = profiles s"
                        using sender by (rule restore_balances)
                      show P
                        by (rule recipient_update_failed [OF rec sender other T, of o3 o2 o1 m])
                           (use ts4 cs4 ps4 s5 s6 s7 s8 s9 d(2) c(2) o5 Failed restored in simp_all)
                    qed
                  qed
                qed
              qed
            qed
          qed
        qed
      qed
    qed
  qed
qed

section \<open>Single-account movements\<close>

text \<open>
  Claim C5. A call of \<open>createTransaction\<close> whose inputs fail a validator or precondition
  check returns the error of that check and performs no write. The checks come in this
  order, each when the earlier ones pass: an inactive account gets \<open>ACCOUNT_INACTIVE\<close>, a
  direction other than credit and debit \<open>INVALID_TRANSACTION_TYPE\<close>, an amount that is
  not positive \<open>INVALID_AMOUNT\<close>, an unknown category \<open>INVALID_TRANSACTION_CATEGORY\<close>, all
  four without the store being called; a failed read of the account \<open>ACCOUNT_NOT_FOUND\<close>,
  and a debit whose amount exceeds the balance just read \<open>INSUFFICIENT_FUNDS\<close>, the store
  having only been read. Whenever any of the checks fails, the answer is an error other
  than \<open>TRANSACTION_FAILED\<close>, both tables are as before and no write call was issued.
\<close>

theorem createTransaction_precondition_failures:
  "(\<not> is_active user \<longrightarrow>
      createTransaction user b e s =
        (ErrorResponse 403
           ''Account is not active. Please wait for activation to perform transactions.''
           ''ACCOUNT_INACTIVE'', s)) \<and>
   (is_active user \<and> b_type b \<notin> {''credit'', ''debit''} \<longrightarrow>
      createTransaction user b e s =
        (ErrorResponse 400 ''Invalid transaction type'' ''INVALID_TRANSACTION_TYPE'', s)) \<and>
   (is_active user \<and> b_type b \<in> {''credit'', ''debit''} \<and> b_amount b \<le> 0 \<longrightarrow>
      createTransaction user b e s =
        (ErrorResponse 400 ''Amount must be positive'' ''INVALID_AMOUNT'', s)) \<and>
   (is_active user \<and> b_type b \<in> {''credit'', ''debit''} \<and> 0 < b_amount b \<and>
    category b \<notin> set validTransactionTypes \<longrightarrow>
      createTransaction user b e s =
        (ErrorResponse 400 ''Invalid transaction type'' ''INVALID_TRANSACTION_CATEGORY'', s)) \<and>
   (is_active user \<and> b_type b \<in> {''credit'', ''debit''} \<and> 0 < b_amount b \<and>
    category b \<in> set validTransactionTypes \<and>
    select_profile_by_id (pid user) s = (Inl msg, s1) \<longrightarrow>
      createTransaction user b e s =
        (ErrorResponse 400 ''Failed to fetch account balance'' ''ACCOUNT_NOT_FOUND'', s1) \<and>
      profiles s1 = profiles s \<and> transactions s1 = transactions s \<and> writes s1 = writes s) \<and>
   (is_active user \<and> b_type b = ''debit'' \<and> 0 < b_amount b \<and>
    category b \<in> set validTransactionTypes \<and>
    select_profile_by_id (pid user) s = (Inr prof, s1) \<and> balance prof < b_amount b \<longrightarrow>
      createTransaction user b e s =
        (ErrorResponse 400 ''Insufficient funds'' ''INSUFFICIENT_FUNDS'', s1) \<and>
      profiles s1 = profiles s \<and> transactions s1 = transactions s \<and> writes s1 = writes s) \<and>
   (\<not> is_active user \<or> b_type b \<notin> {''credit'', ''debit''} \<or> b_amount b \<le> 0 \<or>
    category b \<notin> set validTransactionTypes \<or>
    (\<exists>m. fst (select_profile_by_id (pid user) s) = Inl m) \<or>
    (\<exists>p. fst (select_profile_by_id (pid user) s) = Inr p \<and> b_type b = ''debit'' \<and>
         balance p < b_amount b) \<longrightarrow>
      (\<exists>st msg code. fst (createTransaction user b e s) = ErrorResponse st msg code \<and>
          code \<noteq> ''TRANSACTION_FAILED'') \<and>
      profiles (snd (createTransaction user b e s)) = profiles s \<and>
      transactions (snd (createTransaction user b e s)) = transactions s \<and>
      writes (snd (createTransaction user b e s)) = writes s)"
proof -
  have A: "\<not> is_active user \<longrightarrow>
      createTransaction user b e s =
        (ErrorResponse 403
           ''Account is not active. Please wait for activation to perform transactions.''
           ''ACCOUNT_INACTIVE'', s)"
    by (simp add: createTransaction_def)
  have A2: "is_active user \<and> b_type b \<notin> {''credit'', ''debit''} \<longrightarrow>
      createTransaction user b e s =
        (ErrorResponse 400 ''Invalid transaction type'' ''INVALID_TRANSACTION_TYPE'', s)"
    by (simp add: createTransaction_def)
  have A3: "is_active user \<and> b_type b \<in> {''credit'', ''debit''} \<and> b_amount b \<le> 0 \<longrightarrow>
      createTransaction user b e s =
        (ErrorResponse 400 ''Amount must be positive'' ''INVALID_AMOUNT'', s)"
    by (auto simp: createTransaction_def)
  have A4: "is_active user \<and> b_type b \<in> {''credit'', ''debit''} \<and> 0 < b_amount b \<and>
    category b \<notin> set validTransactionTypes \<longrightarrow>
      createTransaction user b e s =
        (ErrorResponse 400 ''Invalid transaction type'' ''INVALID_TRANSACTION_CATEGORY'', s)"
    by (auto simp: createTransaction_def Let_def category_def)
  have A5: "is_active user \<and> b_type b \<in> {''credit'', ''debit''} \<and> 0 < b_amount b \<and>
    category b \<in> set validTransactionTypes \<and>
    select_profile_by_id (pid user) s = (Inl msg, s1) \<longrightarrow>
      createTransaction user b e s =
        (ErrorResponse 400 ''Failed to fetch account balance'' ''ACCOUNT_NOT_FOUND'', s1) \<and>
      profiles s1 = profiles s \<and> transactions s1 = transactions s \<and> writes s1 = writes s"
    using select_profile_by_id_effect [of "pid user" s "Inl msg" s1]
      select_profile_by_id_writes [of "pid user" s "Inl msg" s1]
    by (auto simp: createTransaction_def Let_def category_def)
  have B: "is_active user \<and> b_type b = ''debit'' \<and> 0 < b_amount b \<and>
    category b \<in> set validTransactionTypes \<and>
    select_profile_by_id (pid user) s = (Inr prof, s1) \<and> balance prof < b_amount b \<longrightarrow>
      createTransaction user b e s =
        (ErrorResponse 400 ''Insufficient funds'' ''INSUFFICIENT_FUNDS'', s1) \<and>
      profiles s1 = profiles s \<and> transactions s1 = transactions s \<and> writes s1 = writes s"
    using select_profile_by_id_effect [of "pid user" s "Inr prof" s1]
      select_profile_by_id_writes [of "pid user" s "Inr prof" s1]
    by (simp add: createTransaction_def Let_def category_def)
  obtain r s2 where sel: "select_profile_by_id (pid user) s = (r, s2)"
    by (cases "select_profile_by_id (pid user) s")
  note eff = select_profile_by_id_effect [OF sel] select_profile_by_id_writes [OF sel]
  have C: "\<not> is_active user \<or> b_type b \<notin> {''credit'', ''debit''} \<or> b_amount b \<le> 0 \<or>
    category b \<notin> set validTransactionTypes \<or>
    (\<exists>m. fst (select_profile_by_id (pid user) s) = Inl m) \<or>
    (\<exists>p. fst (select_profile_by_id (pid user) s) = Inr p \<and> b_type b = ''debit'' \<and>
         balance p < b_amount b) \<longrightarrow>
      (\<exists>st msg code. fst (createTransaction user b e s) = ErrorResponse st msg code \<and>
          code \<noteq> ''TRANSACTION_FAILED'') \<and>
      profiles (snd (createTransaction user b e s)) = profiles s \<and>
      transactions (snd (createTransaction user b e s)) = transactions s \<and>
      writes (snd (createTransaction user b e s)) = writes s"
    using sel eff by (auto simp: createTransaction_def Let_def category_def split: sum.splits)
  from A A2 A3 A4 A5 B C show ?thesis by blast
qed

text \<open>
  Claim C4, as the code has it. When the balance update of \<open>createTransaction\<close> fails,
  the compensating delete of the inserted movement is issued once and its outcome is not
  looked at: the caller receives the same \<open>TRANSACTION_FAILED\<close> answer whether the delete
  succeeded or failed. There is no separate outcome for a failed compensation.
\<close>

theorem createTransaction_update_failure_answer:
  assumes "(Step, UpdateBalance i v, Failed m)
             \<in> set (issued s (snd (createTransaction user b e s)))"
  shows "fst (createTransaction user b e s) =
           ErrorResponse 400 ''Transaction failed'' ''TRANSACTION_FAILED'' \<and>
         (\<exists>out. rollbacks (issued s (snd (createTransaction user b e s))) =
                  [(Rollback, DeleteTransaction (next_id s), out)])"
  using assms
  by (cases rule: createTransaction_cases [of user b e s])
     (auto simp: issued_same rollbacks_def dest!: issued_append)

text \<open>
  Claim C8, as the code has it. When the insertion of the movement record fails, for
  whatever reason (a uniqueness violation on the reference included),
  \<open>createTransaction\<close> does not retry: it answers \<open>TRANSACTION_FAILED\<close> with the store's
  own error message, having issued that one insert and no other write, and both tables
  are as before.
\<close>

theorem createTransaction_insert_failure_answer:
  assumes "(Step, InsertTransaction u t, Failed m)
             \<in> set (issued s (snd (createTransaction user b e s)))"
  shows "fst (createTransaction user b e s) = ErrorResponse 400 m ''TRANSACTION_FAILED'' \<and>
         filter (\<lambda>c. is_write (fst (snd c))) (issued s (snd (createTransaction user b e s))) =
           [(Step, InsertTransaction (pid user) (b_type b), Failed m)] \<and>
         profiles (snd (createTransaction user b e s)) = profiles s \<and>
         transactions (snd (createTransaction user b e s)) = transactions s"
  using assms
  by (cases rule: createTransaction_cases [of user b e s])
     (auto simp: issued_same dest!: issued_append)

lemma select_X:
  "select_profile_by_id 1 (store_XY as) =
     (case as of
        Failed m # _ \<Rightarrow> (Inl m, (store_XY (tl as))\<lparr>calls := [(Step, SelectProfileById 1, Failed m)]\<rparr>)
      | _ \<Rightarrow> (Inr acct_X, (store_XY (tl as))\<lparr>calls := [(Step, SelectProfileById 1, Ok)]\<rparr>))"
  by (simp add: select_profile_by_id_def select_single_def answer_def single_def consume_def
        store_XY_def acct_X_def acct_Y_def split: list.splits outcome.splits)

theorem createTransaction_precondition_failures_witness:
  "\<not> is_active acct_Z \<and>
   createTransaction acct_Z deposit_40 env_1700 (store_XY []) =
     (ErrorResponse 403
        ''Account is not active. Please wait for activation to perform transactions.''
        ''ACCOUNT_INACTIVE'', store_XY []) \<and>
   is_active acct_X \<and> b_type transfer_150_to_Y \<notin> {''credit'', ''debit''} \<and>
   createTransaction acct_X transfer_150_to_Y env_1700 (store_XY []) =
     (ErrorResponse 400 ''Invalid transaction type'' ''INVALID_TRANSACTION_TYPE'', store_XY []) \<and>
   b_amount (deposit_40\<lparr>b_amount := 0\<rparr>) \<le> 0 \<and>
   createTransaction acct_X (deposit_40\<lparr>b_amount := 0\<rparr>) env_1700 (store_XY []) =
     (ErrorResponse 400 ''Amount must be positive'' ''INVALID_AMOUNT'', store_XY []) \<and>
   category (deposit_40\<lparr>b_transaction_type := Some ''gift''\<rparr>) \<notin> set validTransactionTypes \<and>
   createTransaction acct_X (deposit_40\<lparr>b_transaction_type := Some ''gift''\<rparr>) env_1700
       (store_XY []) =
     (ErrorResponse 400 ''Invalid transaction type'' ''INVALID_TRANSACTION_CATEGORY'',
      store_XY []) \<and>
   createTransaction acct_X deposit_40 env_1700 (store_XY [Failed ''timeout'']) =
     (ErrorResponse 400 ''Failed to fetch account balance'' ''ACCOUNT_NOT_FOUND'',
      (store_XY [])\<lparr>calls := [(Step, SelectProfileById 1, Failed ''timeout'')]\<rparr>) \<and>
   b_type withdraw_900 = ''debit'' \<and> balance acct_X < b_amount withdraw_900 \<and>
   createTransaction acct_X withdraw_900 env_1700 (store_XY []) =
     (ErrorResponse 400 ''Insufficient funds'' ''INSUFFICIENT_FUNDS'',
      (store_XY [])\<lparr>calls := [(Step, SelectProfileById 1, Ok)]\<rparr>) \<and>
   profiles (snd (createTransaction acct_X withdraw_900 env_1700 (store_XY []))) = [acct_X, acct_Y] \<and>
   transactions (snd (createTransaction acct_X withdraw_900 env_1700 (store_XY []))) = [] \<and>
   writes (snd (createTransaction acct_X withdraw_900 env_1700 (store_XY []))) = []"
  using createTransaction_precondition_failures
          [of acct_Z deposit_40 env_1700 "store_XY []"]
        createTransaction_precondition_failures
          [of acct_X transfer_150_to_Y env_1700 "store_XY []"]
        createTransaction_precondition_failures
          [of acct_X "deposit_40\<lparr>b_amount := 0\<rparr>" env_1700 "store_XY []"]
        createTransaction_precondition_failures
          [of acct_X "deposit_40\<lparr>b_transaction_type := Some ''gift''\<rparr>" env_1700 "store_XY []"]
        createTransaction_precondition_failures
          [where user = acct_X and b = deposit_40 and e = env_1700
             and s = "store_XY [Failed ''timeout'']" and msg = "''timeout''"
             and ?s1.0 = "(store_XY [])\<lparr>calls := [(Step, SelectProfileById 1, Failed ''timeout'')]\<rparr>"]
        createTransaction_precondition_failures
          [where user = acct_X and b = withdraw_900 and e = env_1700 and s = "store_XY []"
             and prof = acct_X
             and ?s1.0 = "(store_XY [])\<lparr>calls := [(Step, SelectProfileById 1, Ok)]\<rparr>"]
        select_X [of "[]"] select_X [of "[Failed ''timeout'']"]
  by (simp add: acct_Z_def acct_X_def withdraw_900_def deposit_40_def transfer_150_to_Y_def
        category_def validTransactionTypes_def store_XY_def writes_def)

theorem createTransaction_compensation_failure_same_answer:
  "fst (createTransaction acct_X deposit_40 env_1700
          (store_XY [Ok, Ok, Failed ''timeout'', Failed ''timeout''])) =
   fst (createTransaction acct_X deposit_40 env_1700
          (store_XY [Ok, Ok, Failed ''timeout'', Ok])) \<and>
   calls (snd (createTransaction acct_X deposit_40 env_1700
          (store_XY [Ok, Ok, Failed ''timeout'', Failed ''timeout'']))) =
     [(Step, SelectProfileById 1, Ok), (Step, InsertTransaction 1 ''credit'', Ok),
      (Step, UpdateBalance 1 540, Failed ''timeout''),
      (Rollback, DeleteTransaction 3, Failed ''timeout'')] \<and>
   calls (snd (createTransaction acct_X deposit_40 env_1700
          (store_XY [Ok, Ok, Failed ''timeout'', Ok]))) =
     [(Step, SelectProfileById 1, Ok), (Step, InsertTransaction 1 ''credit'', Ok),
      (Step, UpdateBalance 1 540, Failed ''timeout''),
      (Rollback, DeleteTransaction 3, Ok)]"
  by code_simp

theorem createTransaction_update_failure_answer_witness:
  "(Step, UpdateBalance 1 540, Failed ''timeout'')
     \<in> set (issued (store_XY [Ok, Ok, Failed ''timeout'', Failed ''timeout''])
              (snd (createTransaction acct_X deposit_40 env_1700
                     (store_XY [Ok, Ok, Failed ''timeout'', Failed ''timeout''])))) \<and>
   fst (createTransaction acct_X deposit_40 env_1700
          (store_XY [Ok, Ok, Failed ''timeout'', Failed ''timeout''])) =
     ErrorResponse 400 ''Transaction failed'' ''TRANSACTION_FAILED''"
proof -
  have h: "(Step, UpdateBalance 1 540, Failed ''timeout'')
     \<in> set (issued (store_XY [Ok, Ok, Failed ''timeout'', Failed ''timeout''])
              (snd (createTransaction acct_X deposit_40 env_1700
                     (store_XY [Ok, Ok, Failed ''timeout'', Failed ''timeout'']))))"
    by code_simp
  from h createTransaction_update_failure_answer [OF h] show ?thesis by simp
qed

theorem createTransaction_unique_violation_surfaced:
  "createTransaction acct_X deposit_40 env_1700
     (store_XY [Ok, Failed ''duplicate key value violates unique constraint'']) =
   (ErrorResponse 400 ''duplicate key value violates unique constraint'' ''TRANSACTION_FAILED'',
    \<lparr>profiles = [acct_X, acct_Y], transactions = [], next_id = 3, answers = [],
     calls = [(Step, SelectProfileById 1, Ok),
              (Step, InsertTransaction 1 ''credit'',
                 Failed ''duplicate key value violates unique constraint'')]\<rparr>)"
  by code_simp

theorem createTransaction_insert_failure_answer_witness:
  "(Step, InsertTransaction 1 ''credit'', Failed ''duplicate key'')
     \<in> set (issued (store_XY [Ok, Failed ''duplicate key''])
              (snd (createTransaction acct_X deposit_40 env_1700
                     (store_XY [Ok, Failed ''duplicate key''])))) \<and>
   fst (createTransaction acct_X deposit_40 env_1700 (store_XY [Ok, Failed ''duplicate key''])) =
     ErrorResponse 400 ''duplicate key'' ''TRANSACTION_FAILED'' \<and>
   transactions (snd (createTransaction acct_X deposit_40 env_1700
                        (store_XY [Ok, Failed ''duplicate key'']))) = []"
proof -
  have h: "(Step, InsertTransaction 1 ''credit'', Failed ''duplicate key'')
     \<in> set (issued (store_XY [Ok, Failed ''duplicate key''])
              (snd (createTransaction acct_X deposit_40 env_1700
                     (store_XY [Ok, Failed ''duplicate key'']))))"
    by code_simp
  from h createTransaction_insert_failure_answer [OF h] show ?thesis
    by (simp add: store_XY_def)
qed

section \<open>Transfers\<close>

text \<open>
  Claim C1, as the code has it. In \<open>transfer\<close>, the failure of a write step (the insert
  of the sender's debit movement, the insert of the recipient's credit movement, the update
  of the sender's balance, the update of the recipient's balance) is answered with the
  failure of that step, after the compensating calls for every write step that succeeded
  before it: none, the delete of the debit movement, both deletes, both deletes and the
  update restoring the sender's balance. They are issued in the order in which those steps
  ran, not the reverse, and their outcomes are not looked at. When the compensating calls
  succeed (on a store whose movement identities are fresh), the movements are as before the
  transfer; in particular, when the recipient's update fails, both movements are gone, the
  sender's balance is the one read before the transfer and the recipient's balance is
  unchanged: both tables are as before.
\<close>

theorem transfer_compensation:
  assumes run: "transfer user b s = (r, s')"
  shows
   "((Step, InsertTransaction u ''debit'', Failed m) \<in> set (issued s s') \<longrightarrow>
       r = ErrorResponse 400 ''Failed to create debit transaction'' ''TRANSACTION_FAILED'' \<and>
       rollbacks (issued s s') = [] \<and>
       transactions s' = transactions s \<and> profiles s' = profiles s) \<and>
    ((Step, InsertTransaction u ''credit'', Failed m) \<in> set (issued s s') \<longrightarrow>
       r = ErrorResponse 400 ''Failed to create credit transaction'' ''TRANSACTION_FAILED'' \<and>
       (\<exists>o1. rollbacks (issued s s') = [(Rollback, DeleteTransaction (next_id s), o1)] \<and>
             (ids_fresh s \<and> o1 = Ok \<longrightarrow> transactions s' = transactions s)) \<and>
       profiles s' = profiles s) \<and>
    ((Step, UpdateBalance (pid user) v, Failed m) \<in> set (issued s s') \<longrightarrow>
       r = ErrorResponse 400 ''Failed to update sender balance'' ''TRANSACTION_FAILED'' \<and>
       (\<exists>o1 o2. rollbacks (issued s s') =
          [(Rollback, DeleteTransaction (next_id s), o1),
           (Rollback, DeleteTransaction (Suc (next_id s)), o2)] \<and>
          (ids_fresh s \<and> o1 = Ok \<and> o2 = Ok \<longrightarrow> transactions s' = transactions s)) \<and>
       profiles s' = profiles s) \<and>
    (i \<noteq> pid user \<and> (Step, UpdateBalance i v, Failed m) \<in> set (issued s s') \<longrightarrow>
       r = ErrorResponse 400 ''Failed to update recipient balance'' ''TRANSACTION_FAILED'' \<and>
       (\<exists>senderProfile recipient o1 o2 o3.
          filter (\<lambda>p. pid p = pid user) (profiles s) = [senderProfile] \<and>
          filter (\<lambda>p. account_number p = template (b_to_account_number b)) (profiles s)
            = [recipient] \<and>
          issued s s' =
            [(Step, SelectProfileByAccountNumber (template (b_to_account_number b)), Ok),
             (Step, SelectProfileById (pid user), Ok),
             (Step, InsertTransaction (pid user) ''debit'', Ok),
             (Step, InsertTransaction (pid recipient) ''credit'', Ok),
             (Step, UpdateBalance (pid user)
                      (number_subtract (balance senderProfile) (b_amount b)), Ok),
             (Step, UpdateBalance (pid recipient)
                      (number_add (balance recipient) (b_amount b)), Failed m),
             (Rollback, DeleteTransaction (next_id s), o1),
             (Rollback, DeleteTransaction (Suc (next_id s)), o2),
             (Rollback, UpdateBalance (pid user) (balance senderProfile), o3)] \<and>
          (ids_fresh s \<and> o1 = Ok \<and> o2 = Ok \<and> o3 = Ok \<longrightarrow>
             transactions s' = transactions s \<and> profiles s' = profiles s)))"
proof (cases rule: transfer_cases [of user b s])
  case (debit_failed recipient senderProfile m2 s2)
  from run debit_failed(3) have s2: "s2 = s'" and
    r: "r = ErrorResponse 400 ''Failed to create debit transaction'' ''TRANSACTION_FAILED''"
    by simp_all
  note f = debit_failed [unfolded s2]
  show ?thesis using r f(4,5) issued_append [OF f(7)] by (auto simp: rollbacks_simps)
next
  case (credit_failed recipient senderProfile m2 o1 s2)
  from run credit_failed(3) have s2: "s2 = s'" and
    r: "r = ErrorResponse 400 ''Failed to create credit transaction'' ''TRANSACTION_FAILED''"
    by simp_all
  note f = credit_failed [unfolded s2]
  show ?thesis using r f(4,5) issued_append [OF f(7)]
    by (auto simp: rollbacks_simps deleted_one)
next
  case (sender_update_failed recipient senderProfile m2 o1 o2 s2)
  from run sender_update_failed(3) have s2: "s2 = s'" and
    r: "r = ErrorResponse 400 ''Failed to update sender balance'' ''TRANSACTION_FAILED''"
    by simp_all
  note f = sender_update_failed [unfolded s2]
  show ?thesis using r f(4,5) issued_append [OF f(7)]
    by (auto simp: rollbacks_simps deleted_both)
next
  case (recipient_update_failed recipient senderProfile m2 o1 o2 o3 s2)
  from run recipient_update_failed(4) have s2: "s2 = s'" and
    r: "r = ErrorResponse 400 ''Failed to update recipient balance'' ''TRANSACTION_FAILED''"
    by simp_all
  note f = recipient_update_failed [unfolded s2]
  note j = issued_append [OF f(8)]
  have t: "ids_fresh s \<and> o1 = Ok \<and> o2 = Ok \<and> o3 = Ok \<longrightarrow>
             transactions s' = transactions s \<and> profiles s' = profiles s"
    using f(5,6) by (simp add: deleted_both)
  have A: "\<not> (Step, InsertTransaction u ''debit'', Failed m) \<in> set (issued s s')"
    and B: "\<not> (Step, InsertTransaction u ''credit'', Failed m) \<in> set (issued s s')"
    and C: "\<not> (Step, UpdateBalance (pid user) v, Failed m) \<in> set (issued s s')"
    using f(3) by (auto simp: j)
  have D: "i \<noteq> pid user \<and> (Step, UpdateBalance i v, Failed m) \<in> set (issued s s') \<longrightarrow>
       (\<exists>senderProfile recipient o1 o2 o3.
          filter (\<lambda>p. pid p = pid user) (profiles s) = [senderProfile] \<and>
          filter (\<lambda>p. account_number p = template (b_to_account_number b)) (profiles s)
            = [recipient] \<and>
          issued s s' =
            [(Step, SelectProfileByAccountNumber (template (b_to_account_number b)), Ok),
             (Step, SelectProfileById (pid user), Ok),
             (Step, InsertTransaction (pid user) ''debit'', Ok),
             (Step, InsertTransaction (pid recipient) ''credit'', Ok),
             (Step, UpdateBalance (pid user)
                      (number_subtract (balance senderProfile) (b_amount b)), Ok),
             (Step, UpdateBalance (pid recipient)
                      (number_add (balance recipient) (b_amount b)), Failed m),
             (Rollback, DeleteTransaction (next_id s), o1),
             (Rollback, DeleteTransaction (Suc (next_id s)), o2),
             (Rollback, UpdateBalance (pid user) (balance senderProfile), o3)] \<and>
          (ids_fresh s \<and> o1 = Ok \<and> o2 = Ok \<and> o3 = Ok \<longrightarrow>
             transactions s' = transactions s \<and> profiles s' = profiles s))"
  proof
    assume h: "i \<noteq> pid user \<and> (Step, UpdateBalance i v, Failed m) \<in> set (issued s s')"
    then have "m2 = m" by (auto simp: j)
    with f(1,2) j t show "\<exists>senderProfile recipient o1 o2 o3.
          filter (\<lambda>p. pid p = pid user) (profiles s) = [senderProfile] \<and>
          filter (\<lambda>p. account_number p = template (b_to_account_number b)) (profiles s)
            = [recipient] \<and>
          issued s s' =
            [(Step, SelectProfileByAccountNumber (template (b_to_account_number b)), Ok),
             (Step, SelectProfileById (pid user), Ok),
             (Step, InsertTransaction (pid user) ''debit'', Ok),
             (Step, InsertTransaction (pid recipient) ''credit'', Ok),
             (Step, UpdateBalance (pid user)
                      (number_subtract (balance senderProfile) (b_amount b)), Ok),
             (Step, UpdateBalance (pid recipient)
                      (number_add (balance recipient) (b_amount b)), Failed m),
             (Rollback, DeleteTransaction (next_id s), o1),
             (Rollback, DeleteTransaction (Suc (next_id s)), o2),
             (Rollback, UpdateBalance (pid user) (balance senderProfile), o3)] \<and>
          (ids_fresh s \<and> o1 = Ok \<and> o2 = Ok \<and> o3 = Ok \<longrightarrow>
             transactions s' = transactions s \<and> profiles s' = profiles s)"
      by blast
  qed
  from A B C D r show ?thesis by blast
qed (use run in \<open>auto simp: issued_same dest!: issued_append\<close>)

theorem transfer_compensation_witness:
  "(Step, InsertTransaction 1 ''debit'', Failed ''timeout'')
     \<in> set (issued (store_XY [Ok, Ok, Failed ''timeout''])
              (snd (transfer acct_X transfer_150_to_Y (store_XY [Ok, Ok, Failed ''timeout''])))) \<and>
   fst (transfer acct_X transfer_150_to_Y (store_XY [Ok, Ok, Failed ''timeout''])) =
     ErrorResponse 400 ''Failed to create debit transaction'' ''TRANSACTION_FAILED'' \<and>
   (Step, InsertTransaction 2 ''credit'', Failed ''timeout'')
     \<in> set (issued (store_XY [Ok, Ok, Ok, Failed ''timeout''])
              (snd (transfer acct_X transfer_150_to_Y
                      (store_XY [Ok, Ok, Ok, Failed ''timeout''])))) \<and>
   fst (transfer acct_X transfer_150_to_Y (store_XY [Ok, Ok, Ok, Failed ''timeout''])) =
     ErrorResponse 400 ''Failed to create credit transaction'' ''TRANSACTION_FAILED'' \<and>
   (Step, UpdateBalance (pid acct_X) 350, Failed ''timeout'')
     \<in> set (issued (store_XY [Ok, Ok, Ok, Ok, Failed ''timeout''])
              (snd (transfer acct_X transfer_150_to_Y
                      (store_XY [Ok, Ok, Ok, Ok, Failed ''timeout''])))) \<and>
   fst (transfer acct_X transfer_150_to_Y (store_XY [Ok, Ok, Ok, Ok, Failed ''timeout''])) =
     ErrorResponse 400 ''Failed to update sender balance'' ''TRANSACTION_FAILED'' \<and>
   2 \<noteq> pid acct_X \<and>
   (Step, UpdateBalance 2 350, Failed ''timeout'')
     \<in> set (issued (store_XY [Ok, Ok, Ok, Ok, Ok, Failed ''timeout''])
              (snd (transfer acct_X transfer_150_to_Y
                      (store_XY [Ok, Ok, Ok, Ok, Ok, Failed ''timeout''])))) \<and>
   fst (transfer acct_X transfer_150_to_Y (store_XY [Ok, Ok, Ok, Ok, Ok, Failed ''timeout''])) =
     ErrorResponse 400 ''Failed to update recipient balance'' ''TRANSACTION_FAILED'' \<and>
   snd (transfer acct_X transfer_150_to_Y (store_XY [Ok, Ok, Ok, Ok, Ok, Failed ''timeout''])) =
     \<lparr>profiles = [acct_X, acct_Y], transactions = [], next_id = 5, answers = [],
      calls = [(Step, SelectProfileByAccountNumber ''RS0000000002'', Ok),
               (Step, SelectProfileById 1, Ok),
               (Step, InsertTransaction 1 ''debit'', Ok),
               (Step, InsertTransaction 2 ''credit'', Ok),
               (Step, UpdateBalance 1 350, Ok),
               (Step, UpdateBalance 2 350, Failed ''timeout''),
               (Rollback, DeleteTransaction 3, Ok),
               (Rollback, DeleteTransaction 4, Ok),
               (Rollback, UpdateBalance 1 500, Ok)]\<rparr>"
proof -
  have h1: "(Step, InsertTransaction 1 ''debit'', Failed ''timeout'')
     \<in> set (issued (store_XY [Ok, Ok, Failed ''timeout''])
              (snd (transfer acct_X transfer_150_to_Y (store_XY [Ok, Ok, Failed ''timeout'']))))"
    by code_simp
  have h2: "(Step, InsertTransaction 2 ''credit'', Failed ''timeout'')
     \<in> set (issued (store_XY [Ok, Ok, Ok, Failed ''timeout''])
              (snd (transfer acct_X transfer_150_to_Y
                      (store_XY [Ok, Ok, Ok, Failed ''timeout'']))))"
    by code_simp
  have h3: "(Step, UpdateBalance (pid acct_X) 350, Failed ''timeout'')
     \<in> set (issued (store_XY [Ok, Ok, Ok, Ok, Failed ''timeout''])
              (snd (transfer acct_X transfer_150_to_Y
                      (store_XY [Ok, Ok, Ok, Ok, Failed ''timeout'']))))"
    by code_simp
  have h4: "2 \<noteq> pid acct_X \<and> (Step, UpdateBalance 2 350, Failed ''timeout'')
     \<in> set (issued (store_XY [Ok, Ok, Ok, Ok, Ok, Failed ''timeout''])
              (snd (transfer acct_X transfer_150_to_Y
                      (store_XY [Ok, Ok, Ok, Ok, Ok, Failed ''timeout'']))))"
    by code_simp
  have e4: "snd (transfer acct_X transfer_150_to_Y
                   (store_XY [Ok, Ok, Ok, Ok, Ok, Failed ''timeout''])) =
     \<lparr>profiles = [acct_X, acct_Y], transactions = [], next_id = 5, answers = [],
      calls = [(Step, SelectProfileByAccountNumber ''RS0000000002'', Ok),
               (Step, SelectProfileById 1, Ok),
               (Step, InsertTransaction 1 ''debit'', Ok),
               (Step, InsertTransaction 2 ''credit'', Ok),
               (Step, UpdateBalance 1 350, Ok),
               (Step, UpdateBalance 2 350, Failed ''timeout''),
               (Rollback, DeleteTransaction 3, Ok),
               (Rollback, DeleteTransaction 4, Ok),
               (Rollback, UpdateBalance 1 500, Ok)]\<rparr>"
    by code_simp
  have c1: "fst (transfer acct_X transfer_150_to_Y (store_XY [Ok, Ok, Failed ''timeout''])) =
     ErrorResponse 400 ''Failed to create debit transaction'' ''TRANSACTION_FAILED''"
    using transfer_compensation [OF surjective_pairing, where u = 1 and m = "''timeout''"] h1
    by blast
  have c2: "fst (transfer acct_X transfer_150_to_Y (store_XY [Ok, Ok, Ok, Failed ''timeout''])) =
     ErrorResponse 400 ''Failed to create credit transaction'' ''TRANSACTION_FAILED''"
    using transfer_compensation [OF surjective_pairing, where u = 2 and m = "''timeout''"] h2
    by blast
  have c3: "fst (transfer acct_X transfer_150_to_Y
                   (store_XY [Ok, Ok, Ok, Ok, Failed ''timeout''])) =
     ErrorResponse 400 ''Failed to update sender balance'' ''TRANSACTION_FAILED''"
    using transfer_compensation [OF surjective_pairing, where v = 350 and m = "''timeout''"] h3
    by blast
  have c4: "fst (transfer acct_X transfer_150_to_Y
                   (store_XY [Ok, Ok, Ok, Ok, Ok, Failed ''timeout''])) =
     ErrorResponse 400 ''Failed to update recipient balance'' ''TRANSACTION_FAILED''"
    using transfer_compensation
            [OF surjective_pairing, where i = 2 and v = 350 and m = "''timeout''"] h4
    by blast
  from h1 c1 h2 c2 h3 c3 h4 c4 e4 show ?thesis by blast
qed

text \<open>
  Against the claim as stated: with the two inserts and the sender's update succeeding
  and the recipient's update failing, the compensating calls come in the order of the
  steps they undo (not the reverse); and when the first compensating delete fails too,
  the sender's debit movement is not deleted.
\<close>

theorem transfer_rollback_order_and_failure:
  "rollbacks (calls (snd (transfer acct_X transfer_150_to_Y
       (store_XY [Ok, Ok, Ok, Ok, Ok, Failed ''timeout''])))) =
     [(Rollback, DeleteTransaction 3, Ok), (Rollback, DeleteTransaction 4, Ok),
      (Rollback, UpdateBalance 1 500, Ok)] \<and>
   calls (snd (transfer acct_X transfer_150_to_Y
       (store_XY [Ok, Ok, Ok, Ok, Ok, Failed ''timeout'', Failed ''timeout'']))) =
     [(Step, SelectProfileByAccountNumber ''RS0000000002'', Ok),
      (Step, SelectProfileById 1, Ok),
      (Step, InsertTransaction 1 ''debit'', Ok),
      (Step, InsertTransaction 2 ''credit'', Ok),
      (Step, UpdateBalance 1 350, Ok),
      (Step, UpdateBalance 2 350, Failed ''timeout''),
      (Rollback, DeleteTransaction 3, Failed ''timeout''),
      (Rollback, DeleteTransaction 4, Ok),
      (Rollback, UpdateBalance 1 500, Ok)] \<and>
   map (\<lambda>t. (tid t, user_id t, type t, amount t))
     (transactions (snd (transfer acct_X transfer_150_to_Y
       (store_XY [Ok, Ok, Ok, Ok, Ok, Failed ''timeout'', Failed ''timeout''])))) =
     [(3, 1, ''debit'', 150)]"
  by code_simp

text \<open>
  Claim C6, evaluated. A transfer of 150 from X (balance 500) to Y (balance 200) with
  every store call succeeding: X gets a debit movement of 150, Y a credit movement of
  150, both balances end at 350. The debit movement carries no reference at all:
  \<open>transfer\<close> never generates one, so it does not begin with \<open>TRA-\<close>.
\<close>

theorem transfer_example_without_reference:
  "transfer acct_X transfer_150_to_Y (store_XY []) =
     (TransferSuccess
        \<lparr>tid = 3, user_id = 1, type = ''debit'', amount = 150,
         description = Some ''Transfer to RS0000000002'',
         to_account_number = Some ''RS0000000002'',
         transaction_type = None, reference = None, status = ''completed''\<rparr> 350,
      \<lparr>profiles = [acct_X\<lparr>balance := 350\<rparr>, acct_Y\<lparr>balance := 350\<rparr>],
       transactions =
         [\<lparr>tid = 3, user_id = 1, type = ''debit'', amount = 150,
           description = Some ''Transfer to RS0000000002'',
           to_account_number = Some ''RS0000000002'',
           transaction_type = None, reference = None, status = ''completed''\<rparr>,
          \<lparr>tid = 4, user_id = 2, type = ''credit'', amount = 150,
           description = Some ''Transfer from RS0000000001'',
           to_account_number = Some ''RS0000000001'',
           transaction_type = None, reference = None, status = ''completed''\<rparr>],
       next_id = 5, answers = [],
       calls = [(Step, SelectProfileByAccountNumber ''RS0000000002'', Ok),
                (Step, SelectProfileById 1, Ok),
                (Step, InsertTransaction 1 ''debit'', Ok),
                (Step, InsertTransaction 2 ''credit'', Ok),
                (Step, UpdateBalance 1 350, Ok),
                (Step, UpdateBalance 2 350, Ok)]\<rparr>)"
  by code_simp

text \<open>
  Claim C3, as the code has it. The account-route \<open>transfer\<close>, on a store whose
  movement identities are fresh and with every compensating call it issues succeeding,
  either succeeds and has added exactly one debit movement on the sender and one credit
  movement on the recipient, each of the amount and with the other party's account
  number in \<open>to_account_number\<close>, or it answers an error and the movements are as before.
\<close>

theorem transfer_paired_or_nothing:
  assumes fresh: "ids_fresh s"
    and run: "transfer user b s = (r, s')"
    and comp: "rollbacks_ok (issued s s')"
  shows
   "(\<exists>senderProfile recipient d c.
       r = TransferSuccess d (number_subtract (balance senderProfile) (b_amount b)) \<and>
       filter (\<lambda>p. pid p = pid user) (profiles s) = [senderProfile] \<and>
       filter (\<lambda>p. account_number p = template (b_to_account_number b)) (profiles s)
         = [recipient] \<and>
       pid recipient \<noteq> pid user \<and>
       transactions s' = transactions s @ [d, c] \<and>
       user_id d = pid user \<and> type d = ''debit'' \<and> amount d = b_amount b \<and>
       to_account_number d = b_to_account_number b \<and> status d = ''completed'' \<and>
       user_id c = pid recipient \<and> type c = ''credit'' \<and> amount c = b_amount b \<and>
       to_account_number c = Some (account_number senderProfile) \<and> status c = ''completed'') \<or>
    ((\<exists>st msg code. r = ErrorResponse st msg code) \<and> transactions s' = transactions s)"
proof (cases rule: transfer_cases [of user b s])
  case (success recipient senderProfile s2)
  with run have "r = TransferSuccess (debit_leg user b (next_id s))
                       (number_subtract (balance senderProfile) (b_amount b))" and "s2 = s'"
    by simp_all
  with success(3,5,6,10) show ?thesis
    by (intro disjI1 exI [of _ senderProfile] exI [of _ recipient]
          exI [of _ "debit_leg user b (next_id s)"]
          exI [of _ "credit_leg recipient senderProfile b (Suc (next_id s))"])
       (simp add: debit_leg_def credit_leg_def)
next
  case (credit_failed recipient senderProfile m o1 s2)
  from run credit_failed(3)
  have r: "r = ErrorResponse 400 ''Failed to create credit transaction'' ''TRANSACTION_FAILED''"
    and s2: "s2 = s'" by simp_all
  from comp credit_failed(7) [unfolded s2] have "o1 = Ok"
    by (auto simp: rollbacks_ok_def rollbacks_simps dest!: issued_append)
  with r fresh credit_failed(5) [unfolded s2] show ?thesis by (simp add: deleted_one)
next
  case (sender_update_failed recipient senderProfile m o1 o2 s2)
  from run sender_update_failed(3)
  have r: "r = ErrorResponse 400 ''Failed to update sender balance'' ''TRANSACTION_FAILED''"
    and s2: "s2 = s'" by simp_all
  from comp sender_update_failed(7) [unfolded s2] have "o1 = Ok \<and> o2 = Ok"
    by (auto simp: rollbacks_ok_def rollbacks_simps dest!: issued_append)
  with r fresh sender_update_failed(5) [unfolded s2] show ?thesis by (simp add: deleted_both)
next
  case (recipient_update_failed recipient senderProfile m o1 o2 o3 s2)
  from run recipient_update_failed(4)
  have r: "r = ErrorResponse 400 ''Failed to update recipient balance'' ''TRANSACTION_FAILED''"
    and s2: "s2 = s'" by simp_all
  from comp recipient_update_failed(8) [unfolded s2] have "o1 = Ok \<and> o2 = Ok"
    by (auto simp: rollbacks_ok_def rollbacks_simps dest!: issued_append)
  with r fresh recipient_update_failed(6) [unfolded s2] show ?thesis by (simp add: deleted_both)
qed (use run in auto)

theorem transfer_paired_or_nothing_witness:
  "ids_fresh (store_XY []) \<and>
   rollbacks_ok (issued (store_XY []) (snd (transfer acct_X transfer_150_to_Y (store_XY [])))) \<and>
   map (\<lambda>t. (user_id t, type t, amount t, to_account_number t))
       (transactions (snd (transfer acct_X transfer_150_to_Y (store_XY [])))) =
     [(1, ''debit'', 150, Some ''RS0000000002''), (2, ''credit'', 150, Some ''RS0000000001'')]"
proof -
  have f: "ids_fresh (store_XY [])" by (simp add: ids_fresh_def store_XY_def)
  have c: "rollbacks_ok (issued (store_XY [])
             (snd (transfer acct_X transfer_150_to_Y (store_XY []))))"
    by code_simp
  have e: "map (\<lambda>t. (user_id t, type t, amount t, to_account_number t))
       (transactions (snd (transfer acct_X transfer_150_to_Y (store_XY [])))) =
     [(1, ''debit'', 150, Some ''RS0000000002''), (2, ''credit'', 150, Some ''RS0000000001'')]"
    by code_simp
  from transfer_paired_or_nothing [OF f surjective_pairing c] f c e show ?thesis by simp
qed

text \<open>
  Against the claim as stated: the transactions-route \<open>createTransfer\<close> succeeds with
  a debit movement on the sender and no movement on the recipient, whose balance stays
  at 200; and the account-route \<open>transfer\<close> leaves the sender's debit movement alone in
  the ledger when the credit insert fails and the compensating delete fails too.
\<close>

theorem transfer_paths_not_paired:
  "map (\<lambda>t. (user_id t, type t, amount t, to_account_number t))
     (transactions (snd (createTransfer acct_X transfer_150_to_Y env_1700 (store_XY [])))) =
     [(1, ''debit'', 150, Some ''RS0000000002'')] \<and>
   map (\<lambda>p. (pid p, balance p))
     (profiles (snd (createTransfer acct_X transfer_150_to_Y env_1700 (store_XY [])))) =
     [(1, 350), (2, 200)] \<and>
   fst (createTransfer acct_X transfer_150_to_Y env_1700 (store_XY [])) =
     TransactionSuccess
       \<lparr>tid = 3, user_id = 1, type = ''debit'', amount = 150,
        description = Some ''Transfer to RS0000000002'',
        to_account_number = Some ''RS0000000002'',
        transaction_type = Some ''transfer'', reference = Some ''TRA-1B8-12ZA45'',
        status = ''completed''\<rparr> 350 \<and>
   map (\<lambda>t. (user_id t, type t, amount t, to_account_number t))
     (transactions (snd (transfer acct_X transfer_150_to_Y
        (store_XY [Ok, Ok, Ok, Failed ''timeout'', Failed ''timeout''])))) =
     [(1, ''debit'', 150, Some ''RS0000000002'')]"
  by code_simp

section \<open>Balances and the ledger\<close>




lemma pid_set_balance [simp]: "map pid (set_balance i v ps) = map pid ps"
  by (induction ps) (auto simp: set_balance_def)

lemma balance_in_set_balance [simp]:
  "balance_in (set_balance i v ps) a =
     (if a = i then map_option (\<lambda>_. v) (balance_in ps a) else balance_in ps a)"
  by (induction ps) (auto simp: set_balance_def balance_in_def)

lemma completed_sum_append [simp]:
  "completed_sum (ts @ us) a = completed_sum ts a + completed_sum us a"
  by (simp add: completed_sum_def)

lemma completed_sum_simps [simp]:
  "completed_sum [] a = 0"
  "completed_sum (t # ts) a =
     (if user_id t = a \<and> status t = ''completed'' then signed t else 0) + completed_sum ts a"
  by (simp_all add: completed_sum_def)




lemma filter_single_holds: "filter P xs = [q] \<Longrightarrow> P q"
proof -
  assume "filter P xs = [q]"
  then have "q \<in> set (filter P xs)" by simp
  then show ?thesis by simp
qed




















section \<open>References\<close>

lemma toUpperCase_dash: "toUpperCase_char (CHR ''-'') = CHR ''-''"
  by (simp add: toUpperCase_char_def)

lemma upper_digit_inj_list:
  "\<forall>d \<in> set [0..<36]. \<forall>d' \<in> set [0..<36].
     toUpperCase_char (digit d) = toUpperCase_char (digit d') \<longrightarrow> d = d'"
  by code_simp

lemma upper_digit_inj:
  "d < 36 \<Longrightarrow> d' < 36 \<Longrightarrow> toUpperCase_char (digit d) = toUpperCase_char (digit d') \<Longrightarrow> d = d'"
  using upper_digit_inj_list by simp

lemma upper_digit_not_dash_list:
  "\<forall>d \<in> set [0..<36]. toUpperCase_char (digit d) \<noteq> CHR ''-''"
  by code_simp

lemma upper_digit_not_dash: "d < 36 \<Longrightarrow> toUpperCase_char (digit d) \<noteq> CHR ''-''"
  using upper_digit_not_dash_list by simp

lemma toString_radix_nonempty: "toString_radix r n \<noteq> []"
  by (induction r n rule: toString_radix.induct) (subst toString_radix.simps, simp)

lemma toString_radix_small: "n < 36 \<Longrightarrow> toString_radix 36 n = [digit n]"
  by (subst toString_radix.simps) simp

lemma toString_radix_big:
  "36 \<le> n \<Longrightarrow> toString_radix 36 n = toString_radix 36 (n div 36) @ [digit (n mod 36)]"
  by (subst toString_radix.simps) simp

lemma toString_radix_length:
  assumes "36 \<le> n"
  shows "2 \<le> length (toString_radix 36 n)"
proof -
  have "toString_radix 36 n = toString_radix 36 (n div 36) @ [digit (n mod 36)]"
    using assms by (rule toString_radix_big)
  moreover have "toString_radix 36 (n div 36) \<noteq> []" by (rule toString_radix_nonempty)
  ultimately show ?thesis by (cases "toString_radix 36 (n div 36)") simp_all
qed

lemma timestamp_no_dash: "CHR ''-'' \<notin> set (toUpperCase (toString_radix 36 n))"
proof (induction n rule: less_induct)
  case (less n)
  show ?case
  proof (cases "n < 36")
    case True
    then have "toString_radix 36 n = [digit n]" by (rule toString_radix_small)
    with True show ?thesis
      using upper_digit_not_dash [of n] by (auto simp: toUpperCase_def)
  next
    case False
    then have eq: "toString_radix 36 n = toString_radix 36 (n div 36) @ [digit (n mod 36)]"
      by (intro toString_radix_big) simp
    from False have "n div 36 < n" by simp
    then have a: "CHR ''-'' \<notin> set (toUpperCase (toString_radix 36 (n div 36)))"
      by (rule less)
    have b: "toUpperCase_char (digit (n mod 36)) \<noteq> CHR ''-''"
      by (rule upper_digit_not_dash) simp
    show ?thesis unfolding eq using a b by (auto simp: toUpperCase_def)
  qed
qed

lemma timestamp_inj:
  "toUpperCase (toString_radix 36 n) = toUpperCase (toString_radix 36 m) \<Longrightarrow> n = m"
proof (induction n arbitrary: m rule: less_induct)
  case (less n)
  from less.prems have len: "length (toString_radix 36 n) = length (toString_radix 36 m)"
    unfolding toUpperCase_def by (rule map_eq_imp_length_eq)
  show ?case
  proof (cases "n < 36")
    case True
    then have n: "toString_radix 36 n = [digit n]" by (rule toString_radix_small)
    have m: "m < 36"
    proof (rule ccontr)
      assume "\<not> m < 36"
      then have "2 \<le> length (toString_radix 36 m)" by (intro toString_radix_length) simp
      with len n show False by simp
    qed
    then have "toString_radix 36 m = [digit m]" by (rule toString_radix_small)
    with n less.prems
    have "toUpperCase_char (digit n) = toUpperCase_char (digit m)"
      by (simp add: toUpperCase_def)
    with True m show ?thesis by (rule upper_digit_inj)
  next
    case False
    then have n: "toString_radix 36 n = toString_radix 36 (n div 36) @ [digit (n mod 36)]"
      by (intro toString_radix_big) simp
    have m36: "36 \<le> m"
    proof (rule ccontr)
      assume "\<not> 36 \<le> m"
      then have "toString_radix 36 m = [digit m]" by (intro toString_radix_small) simp
      moreover from False have "2 \<le> length (toString_radix 36 n)"
        by (intro toString_radix_length) simp
      ultimately show False using len by simp
    qed
    then have m: "toString_radix 36 m = toString_radix 36 (m div 36) @ [digit (m mod 36)]"
      by (rule toString_radix_big)
    from less.prems
    have hd: "toUpperCase (toString_radix 36 (n div 36)) =
              toUpperCase (toString_radix 36 (m div 36))"
      and tl: "toUpperCase_char (digit (n mod 36)) = toUpperCase_char (digit (m mod 36))"
      unfolding n m by (simp_all add: toUpperCase_def)
    from False have "n div 36 < n" by simp
    from less.IH [OF this hd] have "n div 36 = m div 36" .
    moreover have "n mod 36 = m mod 36" by (rule upper_digit_inj [OF _ _ tl]) simp_all
    ultimately show ?thesis by (metis div_mult_mod_eq)
  qed
qed

lemma random_suffix:
  "toUpperCase (substring 2 8 (fraction_toString ds)) = toUpperCase (map digit (take 6 ds))"
  by (simp add: substring_def fraction_toString_def take_map)

lemma random_suffix_inj:
  assumes "\<forall>d \<in> set ds. d < 36" "\<forall>d \<in> set ds'. d < 36"
    and "toUpperCase (map digit (take 6 ds)) = toUpperCase (map digit (take 6 ds'))"
  shows "take 6 ds = take 6 ds'"
proof -
  have "inj_on (\<lambda>d. toUpperCase_char (digit d)) (set (take 6 ds) \<union> set (take 6 ds'))"
  proof (rule inj_onI)
    fix x y
    assume "x \<in> set (take 6 ds) \<union> set (take 6 ds')"
      and "y \<in> set (take 6 ds) \<union> set (take 6 ds')"
      and eq: "toUpperCase_char (digit x) = toUpperCase_char (digit y)"
    then have "x \<in> set ds \<union> set ds'" "y \<in> set ds \<union> set ds'"
      by (blast dest: in_set_takeD)+
    with assms(1,2) have "x < 36" "y < 36" by blast+
    then show "x = y" using eq by (rule upper_digit_inj)
  qed
  moreover have "map (\<lambda>d. toUpperCase_char (digit d)) (take 6 ds) =
                 map (\<lambda>d. toUpperCase_char (digit d)) (take 6 ds')"
    using assms(3) by (simp add: toUpperCase_def comp_def)
  ultimately show ?thesis by (rule map_inj_on [rotated])
qed

lemma generateReference_parts:
  "generateReference c e =
     toUpperCase (substring 0 3 (toUpperCase c)) @ ''-'' @
     toUpperCase (toString_radix 36 (now e)) @ ''-'' @
     toUpperCase (map digit (take 6 (random e)))"
  using random_suffix [of "random e"]
  by (simp add: generateReference_def Let_def toUpperCase_def toUpperCase_dash)

lemma prefixes:
  "map (\<lambda>c. toUpperCase (substring 0 3 (toUpperCase c))) validTransactionTypes =
     [''TRA'', ''WIT'', ''DEP'', ''PAY'', ''REF'']"
  by code_simp

lemma prefix_cases:
  assumes "c \<in> set validTransactionTypes"
  shows "length (toUpperCase (substring 0 3 (toUpperCase c))) = 3"
  using assms prefixes by (auto simp: validTransactionTypes_def)

lemma prefix_inj:
  assumes "c \<in> set validTransactionTypes" "c' \<in> set validTransactionTypes"
    and "toUpperCase (substring 0 3 (toUpperCase c)) = toUpperCase (substring 0 3 (toUpperCase c'))"
  shows "c = c'"
  using assms prefixes by (auto simp: validTransactionTypes_def)

lemma split_at_separator:
  "a \<notin> set xs \<Longrightarrow> a \<notin> set xs' \<Longrightarrow> xs @ a # ys = xs' @ a # ys' \<Longrightarrow>
     xs = xs' \<and> ys = ys'"
proof (induction xs arbitrary: xs')
  case Nil
  then show ?case by (cases xs') auto
next
  case (Cons x xs)
  then show ?case by (cases xs') auto
qed

lemma generateReference_inj:
  assumes c: "c \<in> set validTransactionTypes" "c' \<in> set validTransactionTypes"
    and ds: "\<forall>d \<in> set (random e). d < 36" "\<forall>d \<in> set (random e'). d < 36"
    and eq: "generateReference c e = generateReference c' e'"
  shows "c = c' \<and> now e = now e' \<and> take 6 (random e) = take 6 (random e')"
proof -
  let ?P = "\<lambda>c. toUpperCase (substring 0 3 (toUpperCase c))"
  let ?T = "\<lambda>e. toUpperCase (toString_radix 36 (now e))"
  let ?R = "\<lambda>e. toUpperCase (map digit (take 6 (random e)))"
  from eq have all: "?P c @ ''-'' @ ?T e @ ''-'' @ ?R e = ?P c' @ ''-'' @ ?T e' @ ''-'' @ ?R e'"
    by (simp only: generateReference_parts)
  have "length (?P c) = length (?P c')" using c by (simp add: prefix_cases)
  with all have p: "?P c = ?P c'" and rest: "?T e @ CHR ''-'' # ?R e = ?T e' @ CHR ''-'' # ?R e'"
    by simp_all
  from timestamp_no_dash [of "now e"] timestamp_no_dash [of "now e'"] rest
  have "?T e = ?T e' \<and> ?R e = ?R e'"
    by (rule split_at_separator)
  then show ?thesis
    using prefix_inj [OF c p] timestamp_inj [of "now e" "now e'"] random_suffix_inj [OF ds]
    by simp
qed

lemma createTransaction_new_rows:
  "set (transactions (snd (createTransaction user b e s)))
     \<subseteq> set (transactions s) \<union> {movement_row user b e (next_id s)}"
  by (cases rule: createTransaction_cases [of user b e s]) (auto simp: deleted_def)

text \<open>
  Claim C7, as the code has it. Every movement record that \<open>createTransaction\<close> writes
  carries a reference: the upper-cased first three letters of the category, the clock
  in base 36 and the first six base-36 digits of the random draw, joined by dashes.
  Nothing in the code compares references; two references generated for valid
  categories are equal only when the category, the millisecond and the six random
  digits all coincide.
\<close>

theorem movement_references:
  "(\<forall>t \<in> set (transactions (snd (createTransaction user b e s))) - set (transactions s).
      reference t = Some (generateReference (category b) e)) \<and>
   generateReference c e =
     toUpperCase (substring 0 3 (toUpperCase c)) @ ''-'' @
     toUpperCase (toString_radix 36 (now e)) @ ''-'' @
     toUpperCase (map digit (take 6 (random e))) \<and>
   (c \<in> set validTransactionTypes \<and> c' \<in> set validTransactionTypes \<and>
    (\<forall>d \<in> set (random e). d < 36) \<and> (\<forall>d \<in> set (random e'). d < 36) \<and>
    generateReference c e = generateReference c' e' \<longrightarrow>
      c = c' \<and> now e = now e' \<and> take 6 (random e) = take 6 (random e'))"
proof -
  have "\<forall>t \<in> set (transactions (snd (createTransaction user b e s))) - set (transactions s).
          reference t = Some (generateReference (category b) e)"
    using createTransaction_new_rows [of user b e s] by (auto simp: movement_row_def)
  then show ?thesis
    using generateReference_parts [of c e] generateReference_inj [of c c' e e'] by blast
qed

theorem movement_references_witness:
  "''deposit'' \<in> set validTransactionTypes \<and>
   generateReference ''deposit'' env_1700 = ''DEP-1B8-12ZA45'' \<and>
   generateReference ''deposit'' (env_1700\<lparr>random := [1, 2, 35, 10, 4, 5, 9, 9]\<rparr>) = ''DEP-1B8-12ZA45'' \<and>
   take 6 (random env_1700) = take 6 [1, 2, 35, 10, 4, 5, 9, 9] \<and>
   map reference (transactions (snd (createTransaction acct_X deposit_40 env_1700 (store_XY []))))
     = [Some ''DEP-1B8-12ZA45'']"
proof -
  have r1: "generateReference ''deposit'' env_1700 = ''DEP-1B8-12ZA45''" by code_simp
  have r2: "generateReference ''deposit'' (env_1700\<lparr>random := [1, 2, 35, 10, 4, 5, 9, 9]\<rparr>)
              = ''DEP-1B8-12ZA45''" by code_simp
  have t: "map reference (transactions (snd (createTransaction acct_X deposit_40 env_1700
             (store_XY [])))) = [Some ''DEP-1B8-12ZA45'']" by code_simp
  from movement_references [of acct_X deposit_40 env_1700 "store_XY []" "''deposit''"
         "''deposit''" "env_1700\<lparr>random := [1, 2, 35, 10, 4, 5, 9, 9]\<rparr>"] r1 r2 t
  show ?thesis by (simp add: validTransactionTypes_def env_1700_def)
qed

text \<open>
  Against the claim as stated: two deposits served in the same millisecond with the same
  random draw are both stored with the same reference, and the two movements written by
  \<open>transfer\<close> carry no reference.
\<close>

theorem references_repeated_or_missing:
  "map reference (transactions (run_history
       [CreateDeposit acct_X deposit_40 env_1700, CreateDeposit acct_Y deposit_40 env_1700]
       (store_XY []))) = [Some ''DEP-1B8-12ZA45'', Some ''DEP-1B8-12ZA45''] \<and>
   map reference (transactions (snd (transfer acct_X transfer_150_to_Y (store_XY [])))) =
     [None, None]"
  by code_simp

section \<open>Signup and activation\<close>

lemma flags_set_balance [simp]:
  "map (\<lambda>p. (pid p, is_active p)) (set_balance i v ps) = map (\<lambda>p. (pid p, is_active p)) ps"
  by (induction ps) (auto simp: set_balance_def)

lemma active_ids_flags:
  "active_ids s = fst ` {x \<in> set (map (\<lambda>p. (pid p, is_active p)) (profiles s)). snd x}"
  by (force simp: active_ids_def image_iff)

lemma createTransaction_flags:
  "map (\<lambda>p. (pid p, is_active p)) (profiles (snd (createTransaction user b e s))) =
   map (\<lambda>p. (pid p, is_active p)) (profiles s)"
  by (cases rule: createTransaction_cases [of user b e s]) auto

lemma transfer_flags:
  "map (\<lambda>p. (pid p, is_active p)) (profiles (snd (transfer user b s))) =
   map (\<lambda>p. (pid p, is_active p)) (profiles s)"
  by (cases rule: transfer_cases [of user b s]) auto

lemma execute_flags:
  "map (\<lambda>p. (pid p, is_active p)) (profiles (snd (execute x s))) =
   map (\<lambda>p. (pid p, is_active p)) (profiles s)"
  by (cases x)
     (simp_all add: createTransaction_flags transfer_flags createWithdrawal_def
        createDeposit_def createTransfer_def)

lemma update_profile_single_profiles:
  "update_profile_single rq i change s = (r, s') \<Longrightarrow>
     profiles s' = profiles s \<or>
     profiles s' = map (\<lambda>p. if pid p = i then change p else p) (profiles s)"
  by (auto simp: update_profile_single_def consume_def split: outcome.splits sum.splits)

lemma active_ids_map_same:
  assumes "\<And>p. pid (change p) = pid p" "\<And>p. is_active (change p) \<Longrightarrow> is_active p"
  shows "set (map pid (filter is_active (map (\<lambda>p. if pid p = i then change p else p) ps)))
           \<subseteq> set (map pid (filter is_active ps))"
  using assms by (induction ps) auto

lemma signup_success:
  assumes "signup nm em ph randomText s = (SignupSuccess newUser, s')"
  shows "newUser = \<lparr>pid = next_id s, name = nm, email = em, password_hash = ph,
                     account_number = generateAccountNumber randomText, balance = 100000,
                     is_active = False\<rparr> \<and>
         profiles s' = profiles s @ [newUser] \<and> transactions s' = transactions s"
proof -
  obtain r1 s1 where sel: "select_profile_by_email em s = (r1, s1)"
    by (cases "select_profile_by_email em s")
  from sel have s1: "profiles s1 = profiles s" "transactions s1 = transactions s"
      "next_id s1 = next_id s"
    unfolding select_profile_by_email_def by (auto dest: select_single_effect)
  from assms sel s1 show ?thesis
    by (auto simp: signup_def Let_def insert_profile_def consume_def
          split: sum.splits outcome.splits)
qed

lemma signup_profiles:
  "profiles (snd (signup nm em ph randomText s)) = profiles s \<or>
   (\<exists>p. \<not> is_active p \<and> profiles (snd (signup nm em ph randomText s)) = profiles s @ [p])"
proof -
  obtain r1 s1 where sel: "select_profile_by_email em s = (r1, s1)"
    by (cases "select_profile_by_email em s")
  from sel have s1: "profiles s1 = profiles s"
    unfolding select_profile_by_email_def by (auto dest: select_single_effect)
  from sel s1 show ?thesis
    by (auto simp: signup_def Let_def insert_profile_def consume_def
          split: sum.splits outcome.splits)
qed

lemma update_profile_single_active_ids:
  assumes "\<And>p. pid (change p) = pid p" "\<And>p. is_active (change p) \<Longrightarrow> is_active p"
  shows "active_ids (snd (update_profile_single rq i change s)) \<subseteq> active_ids s"
proof -
  obtain r s1 where u: "update_profile_single rq i change s = (r, s1)"
    by (cases "update_profile_single rq i change s")
  from update_profile_single_profiles [OF u] active_ids_map_same [of change i "profiles s"] assms
  have "active_ids s1 \<subseteq> active_ids s" by (auto simp: active_ids_def)
  with u show ?thesis by simp
qed

lemma admin_deactivate_active_ids:
  "active_ids (snd (admin_deactivate userId s)) \<subseteq> active_ids s"
proof -
  have "snd (admin_deactivate userId s) =
          snd (update_profile_single (UpdateIsActive userId False) userId
                 (\<lambda>p. p\<lparr>is_active := False\<rparr>) s)"
    by (simp add: admin_deactivate_def split: prod.splits sum.splits)
  with update_profile_single_active_ids
         [of "\<lambda>p. p\<lparr>is_active := False\<rparr>" "UpdateIsActive userId False" userId s]
  show ?thesis by simp
qed

lemma admin_update_balance_active_ids:
  "active_ids (snd (admin_update_balance userId bal opn s)) \<subseteq> active_ids s"
proof (cases bal)
  case None
  then show ?thesis by (simp add: admin_update_balance_def)
next
  case (Some v)
  obtain r1 s1 where sel: "select_profile_by_id userId s = (r1, s1)"
    by (cases "select_profile_by_id userId s")
  from select_profile_by_id_effect [OF sel] have s1: "active_ids s1 = active_ids s"
    by (simp add: active_ids_def)
  show ?thesis
  proof (cases r1)
    case (Inl m)
    with Some sel s1 show ?thesis by (simp add: admin_update_balance_def)
  next
    case (Inr cur)
    define nb where "nb =
      (if (case opn of None \<Rightarrow> ''set'' | Some x \<Rightarrow> x) = ''add''
       then number_add (balance cur) v
       else if (case opn of None \<Rightarrow> ''set'' | Some x \<Rightarrow> x) = ''subtract''
         then max 0 (number_subtract (balance cur) v)
       else v)"
    have "admin_update_balance userId bal opn s =
            (case update_profile_single (UpdateBalance userId nb) userId
                    (\<lambda>p. p\<lparr>balance := nb\<rparr>) s1 of
               (Inl m, s2) \<Rightarrow> (AdminError 500 (''Failed to update balance: '' @ m), s2)
             | (Inr _, s2) \<Rightarrow> (AdminSuccess, s2))"
      using Some sel Inr by (simp add: admin_update_balance_def Let_def nb_def)
    then have "snd (admin_update_balance userId bal opn s) =
                 snd (update_profile_single (UpdateBalance userId nb) userId
                        (\<lambda>p. p\<lparr>balance := nb\<rparr>) s1)"
      by (simp split: prod.splits sum.splits)
    with s1 update_profile_single_active_ids
           [of "\<lambda>p. p\<lparr>balance := nb\<rparr>" "UpdateBalance userId nb" userId s1]
    show ?thesis by simp
  qed
qed

lemma perform_active_ids:
  "\<not> is_activation x \<Longrightarrow> active_ids (snd (perform x s)) \<subseteq> active_ids s"
proof (cases x)
  case (Money y)
  then show ?thesis by (simp add: active_ids_flags execute_flags)
next
  case (Signup nm em ph randomText)
  with signup_profiles [of nm em ph randomText s] show ?thesis
    by (auto simp: active_ids_def)
next
  case (AdminDeactivate userId)
  then show ?thesis by (simp add: admin_deactivate_active_ids)
next
  case (AdminUpdateBalance userId bal opn)
  then show ?thesis by (simp add: admin_update_balance_active_ids)
qed simp_all

lemma update_profile_single_Inr:
  assumes "update_profile_single rq i change s = (Inr q, s')"
  shows "\<exists>p. filter (\<lambda>p. pid p = i) (profiles s) = [p] \<and> q = change p \<and>
             profiles s' = map (\<lambda>p. if pid p = i then change p else p) (profiles s)"
  using assms
  by (auto simp: update_profile_single_def consume_def dest: single_Inr
        split: outcome.splits sum.splits)

lemma activated_member:
  assumes f: "filter (\<lambda>p. pid p = i) ps = [p]" and c: "\<And>p. pid (change p) = pid p"
    and a: "\<And>p. is_active (change p)"
  shows "change p \<in> set (map (\<lambda>p. if pid p = i then change p else p) ps) \<and>
         i \<in> set (map pid (filter is_active (map (\<lambda>p. if pid p = i then change p else p) ps)))"
proof -
  from f have "p \<in> set (filter (\<lambda>p. pid p = i) ps)" by simp
  then have p: "p \<in> set ps" "pid p = i" by simp_all
  then have m: "change p \<in> set (map (\<lambda>p. if pid p = i then change p else p) ps)"
    by (force simp: image_iff)
  have q: "pid (change p) = i" "is_active (change p)" using c a p by simp_all
  from m q have "change p \<in> set (filter is_active
                    (map (\<lambda>p. if pid p = i then change p else p) ps))"
    by simp
  then have "pid (change p) \<in> pid ` set (filter is_active
                    (map (\<lambda>p. if pid p = i then change p else p) ps))"
    by (rule imageI)
  with m q(1) show ?thesis by simp
qed

lemma activateAccount_success:
  assumes "activateAccount userId s = (ActivateSuccess user, s')"
  shows "is_active user \<and> pid user = userId \<and> user \<in> set (profiles s') \<and>
         userId \<in> active_ids s'"
proof -
  from assms have u: "update_profile_single (UpdateIsActive userId True) userId
                        (\<lambda>p. p\<lparr>is_active := True\<rparr>) s = (Inr user, s')"
    by (auto simp: activateAccount_def split: prod.splits sum.splits)
  from update_profile_single_Inr [OF u] obtain p where
    p: "filter (\<lambda>p. pid p = userId) (profiles s) = [p]" "user = p\<lparr>is_active := True\<rparr>"
       "profiles s' = map (\<lambda>p. if pid p = userId then p\<lparr>is_active := True\<rparr> else p) (profiles s)"
    by blast
  from activated_member [OF p(1), of "\<lambda>p. p\<lparr>is_active := True\<rparr>"] p(2,3)
    filter_single_holds [OF p(1)]
  show ?thesis by (simp add: active_ids_def)
qed

lemma admin_activate_success:
  assumes "admin_activate userId initial_balance clock s = (AdminSuccess, s')"
  shows "userId \<in> active_ids s'"
proof -
  let ?change = "\<lambda>p. p\<lparr>is_active := True,
                      account_number := ''RS'' @ slice_last 8 (toString_radix 10 clock),
                      balance := (case initial_balance of None \<Rightarrow> 1000 | Some v \<Rightarrow> v)\<rparr>"
  from assms obtain q where
    u: "update_profile_single (UpdateActivation userId) userId ?change s = (Inr q, s')"
    by (auto simp: admin_activate_def Let_def split: prod.splits sum.splits)
  from update_profile_single_Inr [OF u] obtain p where
    p: "filter (\<lambda>p. pid p = userId) (profiles s) = [p]"
       "profiles s' = map (\<lambda>p. if pid p = userId then ?change p else p) (profiles s)"
    by blast
  from activated_member [OF p(1), of ?change] p(2)
  show ?thesis by (simp add: active_ids_def)
qed

text \<open>
  The active flag. A successful \<open>signup\<close> stores a new profile whose balance is 100000
  and whose active flag is false. For a \<open>req.user\<close> whose flag is false,
  \<open>requireActiveAccount\<close> answers \<open>ACCOUNT_INACTIVE\<close>, and so do \<open>createTransaction\<close>,
  \<open>createWithdrawal\<close>, \<open>createDeposit\<close> and \<open>transfer\<close> themselves, leaving the store
  untouched; on every money-movement route the authenticated user is the stored profile,
  and when its flag is false the route answers \<open>ACCOUNT_INACTIVE\<close> before the validator
  and the handler run, the store having only been read. A successful \<open>activateAccount\<close>
  and a successful activate of the admin router set the flag of the account they name,
  and no other request adds an account to those whose flag is set.
\<close>

theorem accounts_inactive_until_activated:
  "(signup nm em ph randomText s = (SignupSuccess newUser, s') \<longrightarrow>
      balance newUser = 100000 \<and> \<not> is_active newUser \<and>
      profiles s' = profiles s @ [newUser] \<and> transactions s' = transactions s) \<and>
   (\<not> is_active user \<longrightarrow>
      requireActiveAccount user =
        Some (ErrorResponse 403 ''Account is not active. Please wait for activation.''
                ''ACCOUNT_INACTIVE'') \<and>
      createTransaction user b e s =
        (ErrorResponse 403
           ''Account is not active. Please wait for activation to perform transactions.''
           ''ACCOUNT_INACTIVE'', s) \<and>
      createWithdrawal user b e s =
        (ErrorResponse 403
           ''Account is not active. Please wait for activation to perform transactions.''
           ''ACCOUNT_INACTIVE'', s) \<and>
      createDeposit user b e s =
        (ErrorResponse 403
           ''Account is not active. Please wait for activation to perform transactions.''
           ''ACCOUNT_INACTIVE'', s) \<and>
      transfer user b s =
        (ErrorResponse 403
           ''Account is not active. Please wait for activation to perform transfers.''
           ''ACCOUNT_INACTIVE'', s)) \<and>
   (authenticateToken userId s = (Inr stored, s1) \<longrightarrow>
      filter (\<lambda>p. pid p = userId) (profiles s) = [stored] \<and>
      profiles s1 = profiles s \<and> transactions s1 = transactions s \<and> writes s1 = writes s \<and>
      (\<not> is_active stored \<longrightarrow>
         money_route userId rest s =
           (ErrorResponse 403 ''Account is not active. Please wait for activation.''
              ''ACCOUNT_INACTIVE'', s1))) \<and>
   (activateAccount userId s = (ActivateSuccess activated, s2) \<longrightarrow>
      is_active activated \<and> pid activated = userId \<and> activated \<in> set (profiles s2) \<and>
      userId \<in> active_ids s2) \<and>
   (admin_activate userId initial_balance clock s = (AdminSuccess, s3) \<longrightarrow>
      userId \<in> active_ids s3) \<and>
   (\<not> is_activation x \<longrightarrow> active_ids (snd (perform x s)) \<subseteq> active_ids s)"
proof -
  have A: "signup nm em ph randomText s = (SignupSuccess newUser, s') \<longrightarrow>
      balance newUser = 100000 \<and> \<not> is_active newUser \<and>
      profiles s' = profiles s @ [newUser] \<and> transactions s' = transactions s"
    using signup_success [of nm em ph randomText s newUser s'] by auto
  have B: "\<not> is_active user \<longrightarrow>
      requireActiveAccount user =
        Some (ErrorResponse 403 ''Account is not active. Please wait for activation.''
                ''ACCOUNT_INACTIVE'') \<and>
      createTransaction user b e s =
        (ErrorResponse 403
           ''Account is not active. Please wait for activation to perform transactions.''
           ''ACCOUNT_INACTIVE'', s) \<and>
      createWithdrawal user b e s =
        (ErrorResponse 403
           ''Account is not active. Please wait for activation to perform transactions.''
           ''ACCOUNT_INACTIVE'', s) \<and>
      createDeposit user b e s =
        (ErrorResponse 403
           ''Account is not active. Please wait for activation to perform transactions.''
           ''ACCOUNT_INACTIVE'', s) \<and>
      transfer user b s =
        (ErrorResponse 403
           ''Account is not active. Please wait for activation to perform transfers.''
           ''ACCOUNT_INACTIVE'', s)"
    by (simp add: requireActiveAccount_def createTransaction_def createWithdrawal_def
          createDeposit_def transfer_def)
  have C: "authenticateToken userId s = (Inr stored, s1) \<longrightarrow>
      filter (\<lambda>p. pid p = userId) (profiles s) = [stored] \<and>
      profiles s1 = profiles s \<and> transactions s1 = transactions s \<and> writes s1 = writes s \<and>
      (\<not> is_active stored \<longrightarrow>
         money_route userId rest s =
           (ErrorResponse 403 ''Account is not active. Please wait for activation.''
              ''ACCOUNT_INACTIVE'', s1))"
  proof
    assume a: "authenticateToken userId s = (Inr stored, s1)"
    then have sel: "select_profile_by_id userId s = (Inr stored, s1)"
      by (auto simp: authenticateToken_def split: prod.splits sum.splits)
    from select_profile_by_id_Inr [OF sel] select_profile_by_id_writes [OF sel] a
    show "filter (\<lambda>p. pid p = userId) (profiles s) = [stored] \<and>
      profiles s1 = profiles s \<and> transactions s1 = transactions s \<and> writes s1 = writes s \<and>
      (\<not> is_active stored \<longrightarrow>
         money_route userId rest s =
           (ErrorResponse 403 ''Account is not active. Please wait for activation.''
              ''ACCOUNT_INACTIVE'', s1))"
      by (simp add: money_route_def requireActiveAccount_def)
  qed
  have D: "activateAccount userId s = (ActivateSuccess activated, s2) \<longrightarrow>
      is_active activated \<and> pid activated = userId \<and> activated \<in> set (profiles s2) \<and>
      userId \<in> active_ids s2"
    using activateAccount_success [of userId s activated s2] by blast
  have E: "admin_activate userId initial_balance clock s = (AdminSuccess, s3) \<longrightarrow>
      userId \<in> active_ids s3"
    using admin_activate_success [of userId initial_balance clock s s3] by blast
  from A B C D E perform_active_ids [of x s] show ?thesis by blast
qed

theorem accounts_inactive_until_activated_witness:
  "signup ''Zed'' ''z@bank.test'' ''#'' ''0.42'' (store_XY [Failed ''no rows'']) =
     (SignupSuccess acct_new, store_after_signup) \<and>
   balance acct_new = 100000 \<and> \<not> is_active acct_new \<and>
   \<not> is_active acct_Z \<and>
   transfer acct_Z transfer_150_to_Y store_Z =
     (ErrorResponse 403
        ''Account is not active. Please wait for activation to perform transfers.''
        ''ACCOUNT_INACTIVE'', store_Z) \<and>
   authenticateToken 7 store_Z =
     (Inr acct_Z, store_Z\<lparr>calls := [(Step, SelectProfileById 7, Ok)]\<rparr>) \<and>
   money_route 7 (\<lambda>user. transfer user transfer_150_to_Y) store_Z =
     (ErrorResponse 403 ''Account is not active. Please wait for activation.''
        ''ACCOUNT_INACTIVE'', store_Z\<lparr>calls := [(Step, SelectProfileById 7, Ok)]\<rparr>) \<and>
   activateAccount 7 store_Z =
     (ActivateSuccess (acct_Z\<lparr>is_active := True\<rparr>),
      store_Z\<lparr>profiles := [acct_Z\<lparr>is_active := True\<rparr>],
              calls := [(Step, UpdateIsActive 7 True, Ok)]\<rparr>) \<and>
   7 \<in> active_ids (store_Z\<lparr>profiles := [acct_Z\<lparr>is_active := True\<rparr>],
                             calls := [(Step, UpdateIsActive 7 True, Ok)]\<rparr>) \<and>
   \<not> is_activation (Money (Transfer acct_X transfer_150_to_Y)) \<and>
   active_ids (snd (perform (Money (Transfer acct_X transfer_150_to_Y)) (store_XY []))) \<subseteq> {1, 2}"
proof -
  have s: "signup ''Zed'' ''z@bank.test'' ''#'' ''0.42'' (store_XY [Failed ''no rows'']) =
     (SignupSuccess acct_new, store_after_signup)"
    by code_simp
  have z: "\<not> is_active acct_Z" by (simp add: acct_Z_def)
  have a: "authenticateToken 7 store_Z =
     (Inr acct_Z, store_Z\<lparr>calls := [(Step, SelectProfileById 7, Ok)]\<rparr>)"
    by code_simp
  have v: "activateAccount 7 store_Z =
     (ActivateSuccess (acct_Z\<lparr>is_active := True\<rparr>),
      store_Z\<lparr>profiles := [acct_Z\<lparr>is_active := True\<rparr>],
              calls := [(Step, UpdateIsActive 7 True, Ok)]\<rparr>)"
    by code_simp
  have i: "active_ids (store_XY []) = {1, 2}"
    by (simp add: active_ids_def store_XY_def acct_X_def acct_Y_def)
  have n: "\<not> is_activation (Money (Transfer acct_X transfer_150_to_Y))" by simp
  from accounts_inactive_until_activated
         [where nm = "''Zed''" and em = "''z@bank.test''" and ph = "''#''"
            and randomText = "''0.42''"
            and newUser = acct_new and s' = store_after_signup
            and s = "store_XY [Failed ''no rows'']"]
  have c1: "balance acct_new = 100000 \<and> \<not> is_active acct_new" using s by blast
  from accounts_inactive_until_activated
         [where user = acct_Z and b = transfer_150_to_Y and s = store_Z and userId = 7
            and stored = acct_Z
            and ?s1.0 = "store_Z\<lparr>calls := [(Step, SelectProfileById 7, Ok)]\<rparr>"
            and rest = "\<lambda>user. transfer user transfer_150_to_Y"
            and activated = "acct_Z\<lparr>is_active := True\<rparr>"
            and ?s2.0 = "store_Z\<lparr>profiles := [acct_Z\<lparr>is_active := True\<rparr>],
                                 calls := [(Step, UpdateIsActive 7 True, Ok)]\<rparr>"]
  have c2: "transfer acct_Z transfer_150_to_Y store_Z =
     (ErrorResponse 403
        ''Account is not active. Please wait for activation to perform transfers.''
        ''ACCOUNT_INACTIVE'', store_Z)"
    and c3: "money_route 7 (\<lambda>user. transfer user transfer_150_to_Y) store_Z =
     (ErrorResponse 403 ''Account is not active. Please wait for activation.''
        ''ACCOUNT_INACTIVE'', store_Z\<lparr>calls := [(Step, SelectProfileById 7, Ok)]\<rparr>)"
    and c5: "7 \<in> active_ids (store_Z\<lparr>profiles := [acct_Z\<lparr>is_active := True\<rparr>],
                             calls := [(Step, UpdateIsActive 7 True, Ok)]\<rparr>)"
    using z a v by blast+
  from accounts_inactive_until_activated
         [where x = "Money (Transfer acct_X transfer_150_to_Y)" and s = "store_XY []"]
  have c4: "active_ids (snd (perform (Money (Transfer acct_X transfer_150_to_Y)) (store_XY [])))
              \<subseteq> {1, 2}"
    using n i by blast
  from s c1 z c2 a c3 v c5 n c4 show ?thesis by blast
qed

text \<open>
  Claim C10, against the code. The handler that sets the flag, \<open>activateAccount\<close>, is
  mounted on \<open>PATCH /api/auth/activate/:userId\<close> behind \<open>authenticateToken\<close> alone: the
  route does not ask who the caller is. The account created by a signup (identity 3,
  balance 100000, flag false) is refused on a money-movement route; its own request to the
  activation route, for its own identity, succeeds and sets its flag; and its transfer of
  150 from the signup balance is then carried out.
\<close>

theorem inactive_user_activates_itself:
  "signup ''Zed'' ''z@bank.test'' ''#'' ''0.42'' (store_XY [Failed ''no rows'']) =
     (SignupSuccess acct_new, store_after_signup) \<and>
   balance acct_new = 100000 \<and> \<not> is_active acct_new \<and>
   fst (money_route 3 (\<lambda>user. transfer user transfer_150_to_Y) store_after_signup) =
     ErrorResponse 403 ''Account is not active. Please wait for activation.''
       ''ACCOUNT_INACTIVE'' \<and>
   fst (activate_route 3 3 store_after_signup) =
     ActivateSuccess (acct_new\<lparr>is_active := True\<rparr>) \<and>
   profiles (snd (activate_route 3 3 store_after_signup)) =
     [acct_X, acct_Y, acct_new\<lparr>is_active := True\<rparr>] \<and>
   issued store_after_signup (snd (activate_route 3 3 store_after_signup)) =
     [(Step, SelectProfileById 3, Ok), (Step, UpdateIsActive 3 True, Ok)] \<and>
   fst (money_route 3 (\<lambda>user. transfer user transfer_150_to_Y)
          (snd (activate_route 3 3 store_after_signup))) =
     TransferSuccess
       \<lparr>tid = 4, user_id = 3, type = ''debit'', amount = 150,
        description = Some ''Transfer to RS0000000002'',
        to_account_number = Some ''RS0000000002'',
        transaction_type = None, reference = None, status = ''completed''\<rparr> 99850 \<and>
   map (\<lambda>p. (pid p, balance p, is_active p))
     (profiles (snd (money_route 3 (\<lambda>user. transfer user transfer_150_to_Y)
                       (snd (activate_route 3 3 store_after_signup))))) =
     [(1, 500, True), (2, 350, True), (3, 99850, True)]"
  by code_simp
section \<open>Balance arithmetic\<close>

text \<open>
  Claim C9, as the code has it. On two numbers \<open>c\<close> and \<open>a\<close> whose sum (difference) does
  not leave the range of the doubles, \<open>calculateNewBalance\<close> returns the double nearest
  to \<open>c + a\<close> for a credit and the double nearest to \<open>c - a\<close> for a debit, and \<open>c\<close>
  itself for any other direction. The result is \<open>c + a\<close> (\<open>c - a\<close>) exactly whenever that
  number is itself a double, as it is for whole numbers \<open>c\<close> and \<open>a\<close> with a result of
  magnitude at most \<open>2 ^ 53\<close>; so \<open>calculateNewBalance(100, 30, 'debit')\<close> is 70,
  \<open>calculateNewBalance(100, 30, 'credit')\<close> is 130 and
  \<open>calculateNewBalance(100, 30, 'unknown')\<close> is 100.
\<close>

theorem calculateNewBalance_spec:
  "(\<not> overflows (c + a) \<longrightarrow> calculateNewBalance c a ''credit'' = round_double (c + a)) \<and>
   (\<not> overflows (c - a) \<longrightarrow> calculateNewBalance c a ''debit'' = round_double (c - a)) \<and>
   (t \<noteq> ''credit'' \<and> t \<noteq> ''debit'' \<longrightarrow> calculateNewBalance c a t = c) \<and>
   (exact (c + a) \<longrightarrow> calculateNewBalance c a ''credit'' = c + a) \<and>
   (exact (c - a) \<longrightarrow> calculateNewBalance c a ''debit'' = c - a) \<and>
   (c \<in> \<int> \<and> a \<in> \<int> \<and> \<bar>c + a\<bar> \<le> 2 ^ 53 \<longrightarrow> calculateNewBalance c a ''credit'' = c + a) \<and>
   (c \<in> \<int> \<and> a \<in> \<int> \<and> \<bar>c - a\<bar> \<le> 2 ^ 53 \<longrightarrow> calculateNewBalance c a ''debit'' = c - a) \<and>
   calculateNewBalance 100 30 ''debit'' = 70 \<and>
   calculateNewBalance 100 30 ''credit'' = 130 \<and>
   calculateNewBalance 100 30 ''unknown'' = 100"
proof -
  have i: "x \<in> \<int> \<Longrightarrow> y \<in> \<int> \<Longrightarrow> \<bar>x + y\<bar> \<le> 2 ^ 53 \<Longrightarrow> round_double (x + y) = x + y"
    and d: "x \<in> \<int> \<Longrightarrow> y \<in> \<int> \<Longrightarrow> \<bar>x - y\<bar> \<le> 2 ^ 53 \<Longrightarrow> round_double (x - y) = x - y"
    for x y :: rat
    by (simp_all add: round_double_int)
  have e1: "calculateNewBalance 100 30 ''debit'' = 70"
    using d [of 100 30] by (simp add: calculateNewBalance_def number_subtract_def)
  have e2: "calculateNewBalance 100 30 ''credit'' = 130"
    using i [of 100 30] by (simp add: calculateNewBalance_def number_add_def)
  have e3: "calculateNewBalance 100 30 ''unknown'' = 100"
    by (simp add: calculateNewBalance_def)
  from i [of c a] d [of c a] e1 e2 e3 show ?thesis
    by (simp add: calculateNewBalance_def number_add_def number_subtract_def exact_def)
qed

theorem calculateNewBalance_spec_witness:
  "\<not> overflows (500 + 150) \<and> calculateNewBalance 500 150 ''credit'' = round_double (500 + 150) \<and>
   \<not> overflows (500 - 150) \<and> calculateNewBalance 500 150 ''debit'' = round_double (500 - 150) \<and>
   ''refund'' \<noteq> ''credit'' \<and> ''refund'' \<noteq> ''debit'' \<and>
   calculateNewBalance 500 150 ''refund'' = 500 \<and>
   exact (1 / 4 + 1 / 2) \<and> calculateNewBalance (1 / 4) (1 / 2) ''credit'' = 1 / 4 + 1 / 2 \<and>
   exact (1 / 4 - 1 / 2) \<and> calculateNewBalance (1 / 4) (1 / 2) ''debit'' = 1 / 4 - 1 / 2 \<and>
   (500::rat) \<in> \<int> \<and> (150::rat) \<in> \<int> \<and> \<bar>500 + 150 :: rat\<bar> \<le> 2 ^ 53 \<and>
   \<bar>500 - 150 :: rat\<bar> \<le> 2 ^ 53 \<and>
   calculateNewBalance 500 150 ''credit'' = 650 \<and>
   calculateNewBalance 500 150 ''debit'' = 350"
proof -
  have o: "\<not> overflows (500 + 150)" "\<not> overflows (500 - 150)"
    "exact (1 / 4 + 1 / 2)" "exact (1 / 4 - 1 / 2)"
    by code_simp+
  have o: "\<not> overflows (500 + 150)" "\<not> overflows (500 - 150)"
    using exact_int [of "500 + 150"] exact_int [of "500 - 150"] by (simp_all add: exact_def)
  have q: "exact (1 / 4 + 1 / 2)" "exact (1 / 4 - 1 / 2)"
    by code_simp+
  from calculateNewBalance_spec [of 500 150 "''refund''"]
       calculateNewBalance_spec [of "1 / 4" "1 / 2" "''refund''"] o q
  show ?thesis by simp
qed

text \<open>
  Against the claim as stated: the sum of \<open>2 ^ 53\<close> and 1 comes back as \<open>2 ^ 53\<close>, and
  the sum of the numbers that \<open>0.1\<close> and \<open>0.2\<close> are read as comes back as
  \<open>0.3000000000000000444\<close>, which is neither their sum nor the number that \<open>0.3\<close> is read
  as.
\<close>

theorem calculateNewBalance_rounds:
  "calculateNewBalance (2 ^ 53) 1 ''credit'' = 2 ^ 53 \<and>
   calculateNewBalance (2 ^ 53) 1 ''credit'' \<noteq> 2 ^ 53 + 1 \<and>
   calculateNewBalance (round_double (1 / 10)) (round_double (2 / 10)) ''credit'' =
     1351079888211149 / 4503599627370496 \<and>
   calculateNewBalance (round_double (1 / 10)) (round_double (2 / 10)) ''credit'' \<noteq>
     round_double (1 / 10) + round_double (2 / 10) \<and>
   calculateNewBalance (round_double (1 / 10)) (round_double (2 / 10)) ''credit'' \<noteq>
     round_double (3 / 10)"
  by code_simp

end
